theory Spec2Isabelle
  imports Complex_Main "HOL-Library.Word" "HOL-Library.Monad_Syntax"
begin

section \<open>Scene manager and view manager of the 3D scene renderer\<close>

text \<open>
  The development embeds \<^verbatim>\<open>SceneManager.cpp\<close> and \<^verbatim>\<open>ViewManager.cpp\<close>.
  Conventions of the embedding:
  \<^item> the C++ \<^verbatim>\<open>float\<close> and \<^verbatim>\<open>double\<close> values of the pointer and scroll callbacks (the
    camera's movement speed, the stored pointer position, the arguments of the callbacks)
    are floating-point values with rounding, infinities and NaN, see the subsection on
    single and double precision; the other \<^verbatim>\<open>float\<close> values (colors, matrices, angles,
    times) are read as real numbers, and a literal such as \<^verbatim>\<open>0.1f\<close> as its decimal value;
  \<^item> a C++ \<^verbatim>\<open>int\<close> that only counts or indexes the texture table is an \<open>int\<close>;
    a \<^verbatim>\<open>GLuint\<close> is a 32-bit word;
  \<^item> a pointer that the code tests against \<^verbatim>\<open>NULL\<close> is an \<open>option\<close>;
  \<^item> behaviour that C++ leaves undefined (an array access out of range, a call through a
    null pointer) is the result \<open>None\<close> of the operation.
\<close>

subsection \<open>Vectors and matrices of the GLM library\<close>

datatype vec2 = Vec2 real real
datatype vec3 = Vec3 real real real
datatype vec4 = Vec4 real real real real

text \<open>A \<^verbatim>\<open>glm::mat4\<close> is column-major: \<^verbatim>\<open>m[c]\<close> is column \<open>c\<close>.\<close>

datatype mat4 = Mat4 vec4 vec4 vec4 vec4

fun vec4_add :: "vec4 \<Rightarrow> vec4 \<Rightarrow> vec4" where
  "vec4_add (Vec4 a b c d) (Vec4 a' b' c' d') = Vec4 (a + a') (b + b') (c + c') (d + d')"

fun vec4_scale :: "vec4 \<Rightarrow> real \<Rightarrow> vec4" where
  "vec4_scale (Vec4 a b c d) k = Vec4 (a * k) (b * k) (c * k) (d * k)"

definition mat4_identity :: mat4 where
  "mat4_identity = Mat4 (Vec4 1 0 0 0) (Vec4 0 1 0 0) (Vec4 0 0 1 0) (Vec4 0 0 0 1)"

text \<open>\<^verbatim>\<open>operator*(mat4, vec4)\<close>: the linear combination of the columns.\<close>

fun mat4_vec :: "mat4 \<Rightarrow> vec4 \<Rightarrow> vec4" where
  "mat4_vec (Mat4 c0 c1 c2 c3) (Vec4 x y z w) =
     vec4_add (vec4_add (vec4_add (vec4_scale c0 x) (vec4_scale c1 y)) (vec4_scale c2 z))
       (vec4_scale c3 w)"

text \<open>\<^verbatim>\<open>operator*(mat4, mat4)\<close>: column \<open>c\<close> of the product is the left matrix applied to
  column \<open>c\<close> of the right one.\<close>

fun mat4_mul :: "mat4 \<Rightarrow> mat4 \<Rightarrow> mat4" where
  "mat4_mul m (Mat4 c0 c1 c2 c3) =
     Mat4 (mat4_vec m c0) (mat4_vec m c1) (mat4_vec m c2) (mat4_vec m c3)"

text \<open>\<^verbatim>\<open>glm::radians\<close>.\<close>

definition glm_radians :: "real \<Rightarrow> real" where
  "glm_radians degrees = degrees * (pi / 180)"

text \<open>\<^verbatim>\<open>glm::normalize\<close> for a \<^verbatim>\<open>vec3\<close>: the vector times the inverse square root of its
  dot product with itself.\<close>

fun glm_normalize :: "vec3 \<Rightarrow> vec3" where
  "glm_normalize (Vec3 x y z) =
     (let k = 1 / sqrt (x * x + y * y + z * z) in Vec3 (x * k) (y * k) (z * k))"

text \<open>\<^verbatim>\<open>glm::scale(m, v)\<close>, \<^verbatim>\<open>glm::translate(m, v)\<close> and \<^verbatim>\<open>glm::rotate(m, angle, v)\<close> of
  \<^verbatim>\<open>glm/ext/matrix_transform.inl\<close>.\<close>

fun glm_scale_m :: "mat4 \<Rightarrow> vec3 \<Rightarrow> mat4" where
  "glm_scale_m (Mat4 m0 m1 m2 m3) (Vec3 x y z) =
     Mat4 (vec4_scale m0 x) (vec4_scale m1 y) (vec4_scale m2 z) m3"

fun glm_translate_m :: "mat4 \<Rightarrow> vec3 \<Rightarrow> mat4" where
  "glm_translate_m (Mat4 m0 m1 m2 m3) (Vec3 x y z) =
     Mat4 m0 m1 m2
       (vec4_add (vec4_add (vec4_add (vec4_scale m0 x) (vec4_scale m1 y)) (vec4_scale m2 z)) m3)"

fun glm_rotate_m :: "mat4 \<Rightarrow> real \<Rightarrow> vec3 \<Rightarrow> mat4" where
  "glm_rotate_m (Mat4 m0 m1 m2 m3) angle v =
     (let c = cos angle; s = sin angle in
      case glm_normalize v of Vec3 ax ay az \<Rightarrow>
        (let t0 = (1 - c) * ax; t1 = (1 - c) * ay; t2 = (1 - c) * az;
             r00 = c + t0 * ax; r01 = t0 * ay + s * az; r02 = t0 * az - s * ay;
             r10 = t1 * ax - s * az; r11 = c + t1 * ay; r12 = t1 * az + s * ax;
             r20 = t2 * ax + s * ay; r21 = t2 * ay - s * ax; r22 = c + t2 * az
         in Mat4
              (vec4_add (vec4_add (vec4_scale m0 r00) (vec4_scale m1 r01)) (vec4_scale m2 r02))
              (vec4_add (vec4_add (vec4_scale m0 r10) (vec4_scale m1 r11)) (vec4_scale m2 r12))
              (vec4_add (vec4_add (vec4_scale m0 r20) (vec4_scale m1 r21)) (vec4_scale m2 r22))
              m3))"

text \<open>The one-argument forms of \<^verbatim>\<open>glm/gtx/transform.hpp\<close> start from the identity.\<close>

definition glm_scale :: "vec3 \<Rightarrow> mat4" where
  "glm_scale v = glm_scale_m mat4_identity v"

definition glm_translate :: "vec3 \<Rightarrow> mat4" where
  "glm_translate v = glm_translate_m mat4_identity v"

definition glm_rotate :: "real \<Rightarrow> vec3 \<Rightarrow> mat4" where
  "glm_rotate angle v = glm_rotate_m mat4_identity angle v"

text \<open>\<^verbatim>\<open>glm::ortho(left, right, bottom, top, zNear, zFar)\<close> (here \<open>l\<close>, \<open>r\<close>, \<open>b\<close>, \<open>t\<close>) and
  \<^verbatim>\<open>glm::perspective(fovy, aspect, zNear, zFar)\<close> in GLM's default configuration
  (right-handed, depth range \<open>-1\<close> to \<open>1\<close>).\<close>

definition glm_ortho :: "real \<Rightarrow> real \<Rightarrow> real \<Rightarrow> real \<Rightarrow> real \<Rightarrow> real \<Rightarrow> mat4" where
  "glm_ortho l r b t zNear zFar =
     Mat4 (Vec4 (2 / (r - l)) 0 0 0)
          (Vec4 0 (2 / (t - b)) 0 0)
          (Vec4 0 0 (- (2 / (zFar - zNear))) 0)
          (Vec4 (- ((r + l) / (r - l))) (- ((t + b) / (t - b)))
                (- ((zFar + zNear) / (zFar - zNear))) 1)"

definition glm_perspective :: "real \<Rightarrow> real \<Rightarrow> real \<Rightarrow> real \<Rightarrow> mat4" where
  "glm_perspective fovy aspect zNear zFar =
     (let tanHalfFovy = tan (fovy / 2) in
      Mat4 (Vec4 (1 / (aspect * tanHalfFovy)) 0 0 0)
           (Vec4 0 (1 / tanHalfFovy) 0 0)
           (Vec4 0 0 (- ((zFar + zNear) / (zFar - zNear))) (- 1))
           (Vec4 0 0 (- ((2 * zFar * zNear) / (zFar - zNear))) 0))"

subsection \<open>The shader manager\<close>

text \<open>
  Modelled from the spec: the class \<^verbatim>\<open>ShaderManager\<close> is not part of the two source files.
  The spec describes it as a sink that accepts named scalar, vector, matrix, boolean and
  sampler-index values by string key. The sink is the sequence of writes it received, the
  latest last; the value of a uniform is the value of the latest write to its name.
\<close>

datatype uniform_value =
    IntValue int
  | BoolValue bool
  | FloatValue real
  | Vec2Value vec2
  | Vec3Value vec3
  | Vec4Value vec4
  | Mat4Value mat4
  | Sampler2DValue int

record ShaderManager =
  writes :: "(string \<times> uniform_value) list"

definition setUniform :: "string \<Rightarrow> uniform_value \<Rightarrow> ShaderManager \<Rightarrow> ShaderManager" where
  "setUniform name v sh = sh\<lparr>writes := writes sh @ [(name, v)]\<rparr>"

definition setIntValue :: "string \<Rightarrow> int \<Rightarrow> ShaderManager \<Rightarrow> ShaderManager" where
  "setIntValue name v = setUniform name (IntValue v)"

definition setBoolValue :: "string \<Rightarrow> bool \<Rightarrow> ShaderManager \<Rightarrow> ShaderManager" where
  "setBoolValue name v = setUniform name (BoolValue v)"

definition setFloatValue :: "string \<Rightarrow> real \<Rightarrow> ShaderManager \<Rightarrow> ShaderManager" where
  "setFloatValue name v = setUniform name (FloatValue v)"

definition setVec2Value :: "string \<Rightarrow> vec2 \<Rightarrow> ShaderManager \<Rightarrow> ShaderManager" where
  "setVec2Value name v = setUniform name (Vec2Value v)"

definition setVec3Value :: "string \<Rightarrow> vec3 \<Rightarrow> ShaderManager \<Rightarrow> ShaderManager" where
  "setVec3Value name v = setUniform name (Vec3Value v)"

definition setVec4Value :: "string \<Rightarrow> vec4 \<Rightarrow> ShaderManager \<Rightarrow> ShaderManager" where
  "setVec4Value name v = setUniform name (Vec4Value v)"

definition setMat4Value :: "string \<Rightarrow> mat4 \<Rightarrow> ShaderManager \<Rightarrow> ShaderManager" where
  "setMat4Value name v = setUniform name (Mat4Value v)"

definition setSampler2DValue :: "string \<Rightarrow> int \<Rightarrow> ShaderManager \<Rightarrow> ShaderManager" where
  "setSampler2DValue name v = setUniform name (Sampler2DValue v)"

definition uniform :: "ShaderManager \<Rightarrow> string \<Rightarrow> uniform_value option" where
  "uniform sh name = map_of (rev (writes sh)) name"

text \<open>The conversion of a C++ \<^verbatim>\<open>bool\<close> argument to the \<^verbatim>\<open>int\<close> parameter of
  \<^verbatim>\<open>setIntValue\<close>.\<close>

definition int_of_bool :: "bool \<Rightarrow> int" where
  "int_of_bool b = (if b then 1 else 0)"

definition g_ModelName :: string where "g_ModelName = ''model''"
definition g_ColorValueName :: string where "g_ColorValueName = ''objectColor''"
definition g_TextureValueName :: string where "g_TextureValueName = ''objectTexture''"
definition g_UseTextureName :: string where "g_UseTextureName = ''bUseTexture''"
definition g_UseLightingName :: string where "g_UseLightingName = ''bUseLighting''"

subsection \<open>State of the scene manager\<close>

text \<open>\<^verbatim>\<open>TEXTURE_INFO\<close>: an entry of the texture table. The handle is the \<^verbatim>\<open>GLuint\<close> that
  \<^verbatim>\<open>glGenTextures\<close> produced.\<close>

record TEXTURE_INFO =
  ID :: "32 word"
  tag :: string

text \<open>\<^verbatim>\<open>OBJECT_MATERIAL\<close>; its tag field is written \<open>OBJECT_MATERIAL.tag\<close>.\<close>

record OBJECT_MATERIAL =
  diffuseColor :: vec3
  specularColor :: vec3
  shininess :: real
  tag :: string

text \<open>What the image loader \<^verbatim>\<open>stbi_load\<close> hands back for a file it could decode.\<close>

record stbi_image =
  width :: int
  height :: int
  colorChannels :: int

text \<open>The OpenGL calls the scene manager issues, recorded in order.\<close>

datatype gl_target = GL_TEXTURE_2D
datatype gl_pname = GL_TEXTURE_WRAP_S | GL_TEXTURE_WRAP_T | GL_TEXTURE_MIN_FILTER
  | GL_TEXTURE_MAG_FILTER
datatype gl_param = GL_REPEAT | GL_LINEAR
datatype gl_format = GL_RGB8 | GL_RGB | GL_RGBA8 | GL_RGBA

datatype gl_call =
    glGenTextures "32 word"
  | glBindTexture gl_target "32 word"
  | glTexParameteri gl_target gl_pname gl_param
  | glTexImage2D gl_target gl_format int int gl_format
  | glGenerateMipmap gl_target
  | glActiveTexture int

definition GL_TEXTURE0 :: int where
  "GL_TEXTURE0 = 33984"

text \<open>The three lines \<^verbatim>\<open>CreateGLTexture\<close> prints on \<^verbatim>\<open>std::cout\<close>.\<close>

datatype cout_line =
    SuccessfullyLoadedImage string int int int
  | NotImplementedChannels int
  | CouldNotLoadImage string

text \<open>The members of \<^verbatim>\<open>SceneManager\<close> and the outside world it writes to. The pointer
  \<^verbatim>\<open>m_pShaderManager\<close> holds the shader manager it points to; \<^verbatim>\<open>m_textureIDs\<close> is the
  fixed-size array of the class, its length the array's capacity.\<close>

record SceneManager =
  m_pShaderManager :: "ShaderManager option"
  m_textureIDs :: "TEXTURE_INFO list"
  m_loadedTextures :: int
  m_objectMaterials :: "OBJECT_MATERIAL list"
  stbi_flip_vertically_on_load :: bool
  gl_calls :: "gl_call list"
  cout :: "cout_line list"

text \<open>Reading a C array at an index: outside the array the behaviour is undefined.\<close>

definition array_at :: "'a list \<Rightarrow> int \<Rightarrow> 'a option" where
  "array_at xs i = (if 0 \<le> i \<and> i < int (length xs) then Some (xs ! nat i) else None)"

definition gl :: "gl_call list \<Rightarrow> SceneManager \<Rightarrow> SceneManager" where
  "gl cs s = s\<lparr>gl_calls := gl_calls s @ cs\<rparr>"

definition print :: "cout_line \<Rightarrow> SceneManager \<Rightarrow> SceneManager" where
  "print l s = s\<lparr>cout := cout s @ [l]\<rparr>"

subsection \<open>The texture registry\<close>

text \<open>Lines 111 to 123 of \<^verbatim>\<open>CreateGLTexture\<close>: the mipmaps, the unbinding and the
  registration of the handle \<open>textureID\<close> under \<open>tag'\<close> in the next free entry. The
  release of the pixel buffer (\<^verbatim>\<open>stbi_image_free\<close>) changes nothing the model records.\<close>

definition register_texture :: "32 word \<Rightarrow> string \<Rightarrow> SceneManager \<Rightarrow> (bool \<times> SceneManager) option" where
  "register_texture textureID tag' s =
     (let s1 = gl [glGenerateMipmap GL_TEXTURE_2D, glBindTexture GL_TEXTURE_2D 0] s;
          n = m_loadedTextures s1
      in case array_at (m_textureIDs s1) n of
           None \<Rightarrow> None
         | Some e \<Rightarrow>
             (let e1 = e\<lparr>ID := textureID\<rparr>;
                  e2 = e1\<lparr>TEXTURE_INFO.tag := tag'\<rparr>
              in Some (True, s1\<lparr>m_textureIDs := (m_textureIDs s1)[nat n := e2],
                                 m_loadedTextures := n + 1\<rparr>)))"

text \<open>\<^verbatim>\<open>CreateGLTexture(filename, tag)\<close>. The argument \<open>image'\<close> is the answer of
  \<^verbatim>\<open>stbi_load\<close> (\<open>None\<close> for the null pointer), \<open>textureID\<close> the name that
  \<^verbatim>\<open>glGenTextures\<close> stores.\<close>

definition CreateGLTexture ::
  "string \<Rightarrow> string \<Rightarrow> stbi_image option \<Rightarrow> 32 word \<Rightarrow> SceneManager
     \<Rightarrow> (bool \<times> SceneManager) option" where
  "CreateGLTexture filename tag' image' textureID s =
     (let s0 = s\<lparr>stbi_flip_vertically_on_load := True\<rparr> in
      case image' of
        Some img \<Rightarrow>
          (let s1 = print (SuccessfullyLoadedImage filename (width img) (height img)
                             (colorChannels img)) s0;
               s2 = gl [glGenTextures textureID,
                        glBindTexture GL_TEXTURE_2D textureID,
                        glTexParameteri GL_TEXTURE_2D GL_TEXTURE_WRAP_S GL_REPEAT,
                        glTexParameteri GL_TEXTURE_2D GL_TEXTURE_WRAP_T GL_REPEAT,
                        glTexParameteri GL_TEXTURE_2D GL_TEXTURE_MIN_FILTER GL_LINEAR,
                        glTexParameteri GL_TEXTURE_2D GL_TEXTURE_MAG_FILTER GL_LINEAR] s1
           in if colorChannels img = 3 then
                register_texture textureID tag'
                  (gl [glTexImage2D GL_TEXTURE_2D GL_RGB8 (width img) (height img) GL_RGB] s2)
              else if colorChannels img = 4 then
                register_texture textureID tag'
                  (gl [glTexImage2D GL_TEXTURE_2D GL_RGBA8 (width img) (height img) GL_RGBA] s2)
              else
                Some (False, print (NotImplementedChannels (colorChannels img)) s2))
      | None \<Rightarrow> Some (False, print (CouldNotLoadImage filename) s0))"

text \<open>\<^verbatim>\<open>BindGLTextures\<close>: the loop over \<open>i\<close>.\<close>

function BindGLTextures_loop :: "int \<Rightarrow> SceneManager \<Rightarrow> SceneManager option" where
  "BindGLTextures_loop i s =
     (if i < m_loadedTextures s then
        (case array_at (m_textureIDs s) i of
           None \<Rightarrow> None
         | Some e \<Rightarrow>
             BindGLTextures_loop (i + 1)
               (gl [glActiveTexture (GL_TEXTURE0 + i), glBindTexture GL_TEXTURE_2D (ID e)] s))
      else Some s)"
  by pat_completeness auto
termination
  by (relation "measure (\<lambda>(i, s). nat (m_loadedTextures s - i))") (auto simp: gl_def)

definition BindGLTextures :: "SceneManager \<Rightarrow> SceneManager option" where
  "BindGLTextures s = BindGLTextures_loop 0 s"

text \<open>\<^verbatim>\<open>FindTextureID\<close>: the loop carries \<open>index\<close>, \<open>bFound\<close> and \<open>textureID\<close>; the
  handle is converted to the \<^verbatim>\<open>int\<close> the function returns.\<close>

function FindTextureID_loop :: "SceneManager \<Rightarrow> string \<Rightarrow> int \<Rightarrow> bool \<Rightarrow> int \<Rightarrow> int option" where
  "FindTextureID_loop s tag' index bFound textureID =
     (if index < m_loadedTextures s \<and> bFound = False then
        (case array_at (m_textureIDs s) index of
           None \<Rightarrow> None
         | Some e \<Rightarrow>
             if TEXTURE_INFO.tag e = tag'
             then FindTextureID_loop s tag' index True (sint (ID e))
             else FindTextureID_loop s tag' (index + 1) bFound textureID)
      else Some textureID)"
  by pat_completeness auto
termination
  by (relation "measure (\<lambda>(s, t, index, bFound, r).
        2 * nat (m_loadedTextures s - index) + (if bFound then 0 else 1))") auto

definition FindTextureID :: "SceneManager \<Rightarrow> string \<Rightarrow> int option" where
  "FindTextureID s tag' = FindTextureID_loop s tag' 0 False (- 1)"

text \<open>\<^verbatim>\<open>FindTextureSlot\<close>: the same loop, keeping the index.\<close>

function FindTextureSlot_loop :: "SceneManager \<Rightarrow> string \<Rightarrow> int \<Rightarrow> bool \<Rightarrow> int \<Rightarrow> int option" where
  "FindTextureSlot_loop s tag' index bFound textureSlot =
     (if index < m_loadedTextures s \<and> bFound = False then
        (case array_at (m_textureIDs s) index of
           None \<Rightarrow> None
         | Some e \<Rightarrow>
             if TEXTURE_INFO.tag e = tag'
             then FindTextureSlot_loop s tag' index True index
             else FindTextureSlot_loop s tag' (index + 1) bFound textureSlot)
      else Some textureSlot)"
  by pat_completeness auto
termination
  by (relation "measure (\<lambda>(s, t, index, bFound, r).
        2 * nat (m_loadedTextures s - index) + (if bFound then 0 else 1))") auto

definition FindTextureSlot :: "SceneManager \<Rightarrow> string \<Rightarrow> int option" where
  "FindTextureSlot s tag' = FindTextureSlot_loop s tag' 0 False (- 1)"

subsection \<open>The material registry\<close>

text \<open>\<^verbatim>\<open>FindMaterial(tag, material)\<close>: the loop carries \<open>index\<close>, \<open>bFound\<close> and the
  output parameter \<open>material\<close>. The vector is read at \<open>index\<close> only below its size.\<close>

function FindMaterial_loop ::
  "OBJECT_MATERIAL list \<Rightarrow> string \<Rightarrow> int \<Rightarrow> bool \<Rightarrow> OBJECT_MATERIAL
     \<Rightarrow> bool \<times> OBJECT_MATERIAL" where
  "FindMaterial_loop ms tag' index bFound material =
     (if index < int (length ms) \<and> bFound = False then
        (if OBJECT_MATERIAL.tag (ms ! nat index) = tag'
         then FindMaterial_loop ms tag' index True
                (material\<lparr>diffuseColor := diffuseColor (ms ! nat index),
                           specularColor := specularColor (ms ! nat index),
                           shininess := shininess (ms ! nat index)\<rparr>)
         else FindMaterial_loop ms tag' (index + 1) bFound material)
      else (bFound, material))"
  by pat_completeness auto
termination
  by (relation "measure (\<lambda>(ms, t, index, bFound, m).
        2 * nat (int (length ms) - index) + (if bFound then 0 else 1))") auto

text \<open>The result is the returned \<^verbatim>\<open>bool\<close> and the value of the output parameter after the
  call. The function returns \<^verbatim>\<open>true\<close> after the loop, whatever \<open>bFound\<close> is.\<close>

definition FindMaterial :: "string \<Rightarrow> OBJECT_MATERIAL \<Rightarrow> SceneManager \<Rightarrow> bool \<times> OBJECT_MATERIAL" where
  "FindMaterial tag' material s =
     (if length (m_objectMaterials s) = 0 then (False, material)
      else (case FindMaterial_loop (m_objectMaterials s) tag' 0 False material of
              (bFound, material') \<Rightarrow> (True, material')))"

subsection \<open>The transform builder and the shader state of a draw\<close>

text \<open>\<^verbatim>\<open>SetTransformations\<close>. The product is evaluated from the left, as C++ does.\<close>

definition SetTransformations ::
  "vec3 \<Rightarrow> real \<Rightarrow> real \<Rightarrow> real \<Rightarrow> vec3 \<Rightarrow> SceneManager \<Rightarrow> SceneManager" where
  "SetTransformations scaleXYZ XrotationDegrees YrotationDegrees ZrotationDegrees positionXYZ s =
     (let scale = glm_scale scaleXYZ;
          rotationX = glm_rotate (glm_radians XrotationDegrees) (Vec3 1 0 0);
          rotationY = glm_rotate (glm_radians YrotationDegrees) (Vec3 0 1 0);
          rotationZ = glm_rotate (glm_radians ZrotationDegrees) (Vec3 0 0 1);
          translation = glm_translate positionXYZ;
          modelView =
            mat4_mul (mat4_mul (mat4_mul (mat4_mul translation rotationZ) rotationY) rotationX)
              scale
      in case m_pShaderManager s of
           None \<Rightarrow> s
         | Some sh \<Rightarrow> s\<lparr>m_pShaderManager := Some (setMat4Value g_ModelName modelView sh)\<rparr>)"

text \<open>\<^verbatim>\<open>SetShaderColor\<close>.\<close>

definition SetShaderColor :: "real \<Rightarrow> real \<Rightarrow> real \<Rightarrow> real \<Rightarrow> SceneManager \<Rightarrow> SceneManager" where
  "SetShaderColor redColorValue greenColorValue blueColorValue alphaValue s =
     (let currentColor = Vec4 redColorValue greenColorValue blueColorValue alphaValue
      in case m_pShaderManager s of
           None \<Rightarrow> s
         | Some sh \<Rightarrow>
             s\<lparr>m_pShaderManager :=
                 Some (setVec4Value g_ColorValueName currentColor
                        (setIntValue g_UseTextureName (int_of_bool False) sh))\<rparr>)"

text \<open>\<^verbatim>\<open>SetShaderTexture\<close>. The lookup of the slot reads the texture table.\<close>

definition SetShaderTexture :: "string \<Rightarrow> SceneManager \<Rightarrow> SceneManager option" where
  "SetShaderTexture textureTag s =
     (case m_pShaderManager s of
        None \<Rightarrow> Some s
      | Some sh \<Rightarrow>
          (let sh1 = setIntValue g_UseTextureName (int_of_bool True) sh
           in case FindTextureSlot s textureTag of
                None \<Rightarrow> None
              | Some textureID \<Rightarrow>
                  Some (s\<lparr>m_pShaderManager :=
                            Some (setSampler2DValue g_TextureValueName textureID sh1)\<rparr>)))"

text \<open>\<^verbatim>\<open>SetTextureUVScale\<close>.\<close>

definition SetTextureUVScale :: "real \<Rightarrow> real \<Rightarrow> SceneManager \<Rightarrow> SceneManager" where
  "SetTextureUVScale u v s =
     (case m_pShaderManager s of
        None \<Rightarrow> s
      | Some sh \<Rightarrow> s\<lparr>m_pShaderManager := Some (setVec2Value ''UVscale'' (Vec2 u v) sh)\<rparr>)"

text \<open>\<^verbatim>\<open>SetShaderMaterial\<close>. The local variable \<open>material\<close> is not initialised by the code;
  its starting value is the argument \<open>material\<close>. The shader manager is used without a
  test of the pointer.\<close>

definition SetShaderMaterial :: "string \<Rightarrow> OBJECT_MATERIAL \<Rightarrow> SceneManager \<Rightarrow> SceneManager option" where
  "SetShaderMaterial materialTag material s =
     (if length (m_objectMaterials s) > 0 then
        (case FindMaterial materialTag material s of
           (bReturn, material') \<Rightarrow>
             if bReturn = True then
               (case m_pShaderManager s of
                  None \<Rightarrow> None
                | Some sh \<Rightarrow>
                    Some (s\<lparr>m_pShaderManager :=
                      Some (setFloatValue ''material.shininess'' (shininess material')
                             (setVec3Value ''material.specularColor'' (specularColor material')
                               (setVec3Value ''material.diffuseColor'' (diffuseColor material')
                                  sh)))\<rparr>))
             else Some s)
      else Some s)"

text \<open>\<^verbatim>\<open>DefineObjectMaterials\<close>.\<close>

definition DefineObjectMaterials :: "SceneManager \<Rightarrow> SceneManager" where
  "DefineObjectMaterials s =
     (let defaultMaterial =
            \<lparr>diffuseColor = Vec3 (6/10) (6/10) (5/10),
             specularColor = Vec3 (9/10) (9/10) (8/10),
             shininess = 64,
             OBJECT_MATERIAL.tag = ''default''\<rparr>
      in s\<lparr>m_objectMaterials := m_objectMaterials s @ [defaultMaterial]\<rparr>)"

text \<open>\<^verbatim>\<open>RenderScene\<close> is a fixed sequence of calls of the five functions above, each
  object's calls followed by the draw of its mesh. A sequence of such calls:\<close>

datatype scene_call =
    CallSetTransformations vec3 real real real vec3
  | CallSetShaderColor real real real real
  | CallSetShaderTexture string
  | CallSetTextureUVScale real real
  | CallSetShaderMaterial string OBJECT_MATERIAL

fun do_call :: "scene_call \<Rightarrow> SceneManager \<Rightarrow> SceneManager option" where
  "do_call (CallSetTransformations sc x y z p) s = Some (SetTransformations sc x y z p s)"
| "do_call (CallSetShaderColor r g b a) s = Some (SetShaderColor r g b a s)"
| "do_call (CallSetShaderTexture t) s = SetShaderTexture t s"
| "do_call (CallSetTextureUVScale u v) s = Some (SetTextureUVScale u v s)"
| "do_call (CallSetShaderMaterial t m) s = SetShaderMaterial t m s"

fun do_calls :: "scene_call list \<Rightarrow> SceneManager \<Rightarrow> SceneManager option" where
  "do_calls [] s = Some s"
| "do_calls (c # cs) s =
     (case do_call c s of None \<Rightarrow> None | Some s' \<Rightarrow> do_calls cs s')"

text \<open>A sequence of texture loads, each with the file name, the tag, the answer of the
  image loader and the name \<^verbatim>\<open>glGenTextures\<close> produces. The results of the calls are
  collected in order.\<close>

fun CreateGLTextures ::
  "(string \<times> string \<times> stbi_image option \<times> 32 word) list \<Rightarrow> SceneManager
     \<Rightarrow> (bool list \<times> SceneManager) option" where
  "CreateGLTextures [] s = Some ([], s)"
| "CreateGLTextures ((filename, tag', image', textureID) # ls) s =
     (case CreateGLTexture filename tag' image' textureID s of
        None \<Rightarrow> None
      | Some (r, s') \<Rightarrow>
          (case CreateGLTextures ls s' of
             None \<Rightarrow> None
           | Some (rs, s'') \<Rightarrow> Some (r # rs, s'')))"

subsection \<open>Single and double precision numbers\<close>

text \<open>
  A value of the C++ types \<^verbatim>\<open>float\<close> and \<^verbatim>\<open>double\<close> (IEEE 754 binary32 and binary64) is a
  finite real number, one of the two infinities, or NaN. The two zeros are one value, since
  no operation of the code tells them apart. An operation computes the exact result and
  rounds it to the nearest number of its format, a tie to the one with an even
  significand; a \<^verbatim>\<open>float\<close> operation rounds to single and a \<^verbatim>\<open>double\<close> operation to double
  precision.
\<close>

datatype fp = Finite real | PosInf | NegInf | NaN














subsection \<open>State of the view manager\<close>

text \<open>The class \<^verbatim>\<open>Camera\<close> is not part of the two source files. The record holds the
  members the view manager reads and writes; the methods of the class the view manager
  calls (\<^verbatim>\<open>ProcessKeyboard\<close>, \<^verbatim>\<open>ProcessMouseMovement\<close>, \<^verbatim>\<open>GetViewMatrix\<close>) are arguments
  of the functions that call them. The movement speed is a \<^verbatim>\<open>float\<close>.\<close>

record Camera =
  Position :: vec3
  Front :: vec3
  Up :: vec3
  Zoom :: real
  MovementSpeed :: fp

datatype Camera_Movement = FORWARD | BACKWARD | LEFT | RIGHT | UP | DOWN

datatype glfw_key = GLFW_KEY_ESCAPE | GLFW_KEY_W | GLFW_KEY_S | GLFW_KEY_A | GLFW_KEY_D
  | GLFW_KEY_Q | GLFW_KEY_E | GLFW_KEY_P | GLFW_KEY_O

record GLFWwindow =
  shouldClose :: bool

definition WINDOW_WIDTH :: int where "WINDOW_WIDTH = 1000"
definition WINDOW_HEIGHT :: int where "WINDOW_HEIGHT = 800"
definition g_ViewName :: string where "g_ViewName = ''view''"
definition g_ProjectionName :: string where "g_ProjectionName = ''projection''"

text \<open>The members of \<^verbatim>\<open>ViewManager\<close> (the shader manager pointer is named
  \<open>m_pShaderManager_view\<close> here) and the variables of the anonymous namespace; \<open>gLastX\<close>
  and \<open>gLastY\<close> are \<^verbatim>\<open>float\<close> variables.\<close>

record ViewManager =
  m_pShaderManager_view :: "ShaderManager option"
  m_pWindow :: "GLFWwindow option"
  g_pCamera :: "Camera option"
  gLastX :: fp
  gLastY :: fp
  gFirstMouse :: bool
  gDeltaTime :: real
  gLastFrame :: real
  bOrthographicProjection :: bool

text \<open>The initial values of the namespace variables followed by the constructor, that is
  the first view manager a process creates: the constructor sets the two pointers and the
  camera and leaves the other variables of the namespace as they are. The halves of the
  window's width and height are single precision numbers.\<close>

definition ViewManager_new :: "ShaderManager option \<Rightarrow> ViewManager" where
  "ViewManager_new pShaderManager =
     \<lparr>m_pShaderManager_view = pShaderManager,
      m_pWindow = None,
      g_pCamera = Some \<lparr>Position = Vec3 0 5 12, Front = Vec3 0 (- (1/2)) (- 2),
                         Up = Vec3 0 1 0, Zoom = 80, MovementSpeed = Finite 20\<rparr>,
      gLastX = Finite (real_of_int WINDOW_WIDTH / 2),
      gLastY = Finite (real_of_int WINDOW_HEIGHT / 2),
      gFirstMouse = True,
      gDeltaTime = 0,
      gLastFrame = 0,
      bOrthographicProjection = False\<rparr>"

text \<open>\<^verbatim>\<open>CreateDisplayWindow\<close>, for a window that \<^verbatim>\<open>glfwCreateWindow\<close> could create.\<close>

definition CreateDisplayWindow :: "ViewManager \<Rightarrow> ViewManager" where
  "CreateDisplayWindow s = s\<lparr>m_pWindow := Some \<lparr>shouldClose = False\<rparr>\<rparr>"

subsection \<open>Pointer and scroll callbacks\<close>




subsection \<open>Keyboard and the view of a frame\<close>

text \<open>One \<^verbatim>\<open>if (glfwGetKey(...) == GLFW_PRESS) g_pCamera->ProcessKeyboard(d, gDeltaTime)\<close>.\<close>

definition camera_key ::
  "(Camera_Movement \<Rightarrow> real \<Rightarrow> Camera \<Rightarrow> Camera) \<Rightarrow> bool \<Rightarrow> Camera_Movement \<Rightarrow> ViewManager
     \<Rightarrow> ViewManager option" where
  "camera_key ProcessKeyboard down d s =
     (if down then
        (case g_pCamera s of
           None \<Rightarrow> None
         | Some c \<Rightarrow> Some (s\<lparr>g_pCamera := Some (ProcessKeyboard d (gDeltaTime s) c)\<rparr>))
      else Some s)"

text \<open>\<^verbatim>\<open>ProcessKeyboardEvents\<close>; \<open>pressed k\<close> says that \<^verbatim>\<open>glfwGetKey\<close> answers
  \<^verbatim>\<open>GLFW_PRESS\<close> for the key \<open>k\<close>.\<close>

definition ProcessKeyboardEvents ::
  "(Camera_Movement \<Rightarrow> real \<Rightarrow> Camera \<Rightarrow> Camera) \<Rightarrow> (glfw_key \<Rightarrow> bool) \<Rightarrow> ViewManager
     \<Rightarrow> ViewManager option" where
  "ProcessKeyboardEvents ProcessKeyboard pressed s =
     (case m_pWindow s of
        None \<Rightarrow> None
      | Some w \<Rightarrow>
          do {
            let s0 = (if pressed GLFW_KEY_ESCAPE
                      then s\<lparr>m_pWindow := Some (w\<lparr>shouldClose := True\<rparr>)\<rparr> else s);
            s1 \<leftarrow> camera_key ProcessKeyboard (pressed GLFW_KEY_W) FORWARD s0;
            s2 \<leftarrow> camera_key ProcessKeyboard (pressed GLFW_KEY_S) BACKWARD s1;
            s3 \<leftarrow> camera_key ProcessKeyboard (pressed GLFW_KEY_A) LEFT s2;
            s4 \<leftarrow> camera_key ProcessKeyboard (pressed GLFW_KEY_D) RIGHT s3;
            s5 \<leftarrow> camera_key ProcessKeyboard (pressed GLFW_KEY_Q) UP s4;
            s6 \<leftarrow> camera_key ProcessKeyboard (pressed GLFW_KEY_E) DOWN s5;
            let s7 = (if pressed GLFW_KEY_P then s6\<lparr>bOrthographicProjection := False\<rparr> else s6);
            let s8 = (if pressed GLFW_KEY_O then s7\<lparr>bOrthographicProjection := True\<rparr> else s7);
            Some s8
          })"

text \<open>\<^verbatim>\<open>PrepareSceneView\<close>; \<open>currentFrame\<close> is the answer of \<^verbatim>\<open>glfwGetTime\<close>,
  \<open>GetViewMatrix\<close> the camera's method.\<close>

definition PrepareSceneView ::
  "(Camera_Movement \<Rightarrow> real \<Rightarrow> Camera \<Rightarrow> Camera) \<Rightarrow> (Camera \<Rightarrow> mat4) \<Rightarrow> (glfw_key \<Rightarrow> bool) \<Rightarrow> real
     \<Rightarrow> ViewManager \<Rightarrow> ViewManager option" where
  "PrepareSceneView ProcessKeyboard GetViewMatrix pressed currentFrame s =
     do {
       let s1 = s\<lparr>gDeltaTime := currentFrame - gLastFrame s\<rparr>;
       let s2 = s1\<lparr>gLastFrame := currentFrame\<rparr>;
       s3 \<leftarrow> ProcessKeyboardEvents ProcessKeyboard pressed s2;
       c \<leftarrow> g_pCamera s3;
       let view = GetViewMatrix c;
       let (projection, c') =
         (if bOrthographicProjection s3 then
            (let scale = 10 in
             (glm_ortho (- scale) scale
                (((- scale) * real_of_int WINDOW_HEIGHT) / real_of_int WINDOW_WIDTH)
                ((scale * real_of_int WINDOW_HEIGHT) / real_of_int WINDOW_WIDTH)
                (1/10) 100,
              c\<lparr>Front := Vec3 0 (- 1) (- 1)\<rparr>))
          else
            (glm_perspective (glm_radians (Zoom c))
               (real_of_int WINDOW_WIDTH / real_of_int WINDOW_HEIGHT) (1/10) 100,
             c));
       let s4 = s3\<lparr>g_pCamera := Some c'\<rparr>;
       Some (case m_pShaderManager_view s4 of
               None \<Rightarrow> s4
             | Some sh \<Rightarrow>
                 s4\<lparr>m_pShaderManager_view :=
                      Some (setVec3Value ''viewPosition'' (Position c')
                             (setMat4Value g_ProjectionName projection
                               (setMat4Value g_ViewName view sh)))\<rparr>)
     }"


subsection \<open>Notions of the specification\<close>

text \<open>The texture table is in order when the count of loaded textures lies within the
  array; the registered entries are the first \<open>m_loadedTextures\<close> entries of the array.\<close>

definition wf_textures :: "SceneManager \<Rightarrow> bool" where
  "wf_textures s =
     (0 \<le> m_loadedTextures s \<and> m_loadedTextures s \<le> int (length (m_textureIDs s)))"

definition registered :: "SceneManager \<Rightarrow> TEXTURE_INFO list" where
  "registered s = take (nat (m_loadedTextures s)) (m_textureIDs s)"

text \<open>
  Modelled from the spec: the declaration of the class (\<^verbatim>\<open>SceneManager.h\<close>) is not among the
  source files. A new scene manager has a texture table of 16 entries (the limit the spec
  and the comment of \<^verbatim>\<open>BindGLTextures\<close> give), no loaded texture and no material.
\<close>

definition SceneManager_new :: "ShaderManager option \<Rightarrow> SceneManager" where
  "SceneManager_new pShaderManager =
     \<lparr>m_pShaderManager = pShaderManager,
      m_textureIDs = replicate 16 \<lparr>ID = 0, TEXTURE_INFO.tag = []\<rparr>,
      m_loadedTextures = 0,
      m_objectMaterials = [],
      stbi_flip_vertically_on_load = False,
      gl_calls = [],
      cout = []\<rparr>"







text \<open>The value of \<^verbatim>\<open>bUseTexture\<close> the specification expects after a sequence of calls
  that starts with the value \<open>v\<close>: the one of the last call that sets a color (0) or a
  texture (1).\<close>

fun spec_bUseTexture :: "scene_call list \<Rightarrow> uniform_value option \<Rightarrow> uniform_value option" where
  "spec_bUseTexture [] v = v"
| "spec_bUseTexture (CallSetShaderColor r g b a # cs) v = spec_bUseTexture cs (Some (IntValue 0))"
| "spec_bUseTexture (CallSetShaderTexture t # cs) v = spec_bUseTexture cs (Some (IntValue 1))"
| "spec_bUseTexture (c # cs) v = spec_bUseTexture cs v"



subsection \<open>Example inputs\<close>

text \<open>Two of the loads of \<^verbatim>\<open>PrepareScene\<close>, with an RGB and an RGBA image.\<close>

definition two_textures :: "(string \<times> string \<times> stbi_image option \<times> 32 word) list" where
  "two_textures =
     [(''Textures/Grass.jpg'', ''grass'', Some \<lparr>width = 512, height = 512, colorChannels = 3\<rparr>, 1),
      (''Textures/glass.jpg'', ''glass'', Some \<lparr>width = 256, height = 128, colorChannels = 4\<rparr>, 2)]"

text \<open>The loads of a sequence that returned \<^verbatim>\<open>true\<close>, in order; \<open>rs\<close> are the results
  of the calls.\<close>

definition successful_loads ::
  "(string \<times> string \<times> stbi_image option \<times> 32 word) list \<Rightarrow> bool list
     \<Rightarrow> (string \<times> string \<times> stbi_image option \<times> 32 word) list" where
  "successful_loads reqs rs = map fst (filter snd (zip reqs rs))"

definition load_tag :: "string \<times> string \<times> stbi_image option \<times> 32 word \<Rightarrow> string" where
  "load_tag q = fst (snd q)"

definition load_ID :: "string \<times> string \<times> stbi_image option \<times> 32 word \<Rightarrow> 32 word" where
  "load_ID q = snd (snd (snd q))"

text \<open>Three loads, the second of an image with a single channel.\<close>

definition three_loads :: "(string \<times> string \<times> stbi_image option \<times> 32 word) list" where
  "three_loads =
     [(''Textures/Grass.jpg'', ''grass'', Some \<lparr>width = 512, height = 512, colorChannels = 3\<rparr>, 1),
      (''Textures/gray.png'', ''gray'', Some \<lparr>width = 64, height = 64, colorChannels = 1\<rparr>, 2),
      (''Textures/glass.jpg'', ''glass'', Some \<lparr>width = 256, height = 128, colorChannels = 4\<rparr>, 3)]"



definition example_ProcessKeyboard :: "Camera_Movement \<Rightarrow> real \<Rightarrow> Camera \<Rightarrow> Camera" where
  "example_ProcessKeyboard d t c = c"

definition example_GetViewMatrix :: "Camera \<Rightarrow> mat4" where
  "example_GetViewMatrix c = mat4_identity"

text \<open>A view manager with a shader manager and a window, and the keyboard with only the
  key O down.\<close>

definition example_view :: ViewManager where
  "example_view = CreateDisplayWindow (ViewManager_new (Some \<lparr>writes = []\<rparr>))"

definition only_key_O :: "glfw_key \<Rightarrow> bool" where
  "only_key_O k = (k = GLFW_KEY_O)"

definition no_key :: "glfw_key \<Rightarrow> bool" where
  "no_key k = False"

text \<open>A value of the output parameter of \<^verbatim>\<open>FindMaterial\<close> before the call.\<close>

definition example_material :: OBJECT_MATERIAL where
  "example_material =
     \<lparr>diffuseColor = Vec3 (1/2) (1/4) 0, specularColor = Vec3 1 1 1, shininess = 8,
      OBJECT_MATERIAL.tag = ''before''\<rparr>"

section \<open>Properties\<close>

subsection \<open>The texture table\<close>

lemma array_at_Some: "0 \<le> i \<Longrightarrow> i < int (length xs) \<Longrightarrow> array_at xs i = Some (xs ! nat i)"
  by (simp add: array_at_def)

lemma FindTextureSlot_loop_miss:
  assumes "m_loadedTextures s \<le> int (length (m_textureIDs s))" "0 \<le> index"
    and "\<forall>i. index \<le> i \<and> i < m_loadedTextures s \<longrightarrow> TEXTURE_INFO.tag (m_textureIDs s ! nat i) \<noteq> t"
  shows "FindTextureSlot_loop s t index False r = Some r"
  using assms
proof (induction s t index "False" r rule: FindTextureSlot_loop.induct)
  case (1 s tag' index textureSlot)
  show ?case
  proof (cases "index < m_loadedTextures s")
    case True
    then have a: "array_at (m_textureIDs s) index = Some (m_textureIDs s ! nat index)"
      using "1.prems" by (simp add: array_at_Some)
    have ne: "TEXTURE_INFO.tag (m_textureIDs s ! nat index) \<noteq> tag'"
      using "1.prems" True by simp
    have "FindTextureSlot_loop s tag' (index + 1) False textureSlot = Some textureSlot"
      using "1.hyps"(2)[OF _ a ne] True "1.prems" by simp
    then show ?thesis using True a ne by simp
  next
    case False
    then show ?thesis by simp
  qed
qed

lemma FindTextureID_loop_miss:
  assumes "m_loadedTextures s \<le> int (length (m_textureIDs s))" "0 \<le> index"
    and "\<forall>i. index \<le> i \<and> i < m_loadedTextures s \<longrightarrow> TEXTURE_INFO.tag (m_textureIDs s ! nat i) \<noteq> t"
  shows "FindTextureID_loop s t index False r = Some r"
  using assms
proof (induction s t index "False" r rule: FindTextureID_loop.induct)
  case (1 s tag' index textureID)
  show ?case
  proof (cases "index < m_loadedTextures s")
    case True
    then have a: "array_at (m_textureIDs s) index = Some (m_textureIDs s ! nat index)"
      using "1.prems" by (simp add: array_at_Some)
    have ne: "TEXTURE_INFO.tag (m_textureIDs s ! nat index) \<noteq> tag'"
      using "1.prems" True by simp
    have "FindTextureID_loop s tag' (index + 1) False textureID = Some textureID"
      using "1.hyps"(2)[OF _ a ne] True "1.prems" by simp
    then show ?thesis using True a ne by simp
  next
    case False
    then show ?thesis by simp
  qed
qed


lemma FindTextureSlot_loop_hit:
  assumes "m_loadedTextures s \<le> int (length (m_textureIDs s))" "0 \<le> index" "index \<le> j"
    "j < m_loadedTextures s"
    and "\<forall>i. index \<le> i \<and> i < j \<longrightarrow> TEXTURE_INFO.tag (m_textureIDs s ! nat i) \<noteq> t"
    and "TEXTURE_INFO.tag (m_textureIDs s ! nat j) = t"
  shows "FindTextureSlot_loop s t index False r = Some j"
  using assms
proof (induction s t index "False" r rule: FindTextureSlot_loop.induct)
  case (1 s tag' index textureSlot)
  have lt: "index < m_loadedTextures s" using "1.prems" by simp
  then have a: "array_at (m_textureIDs s) index = Some (m_textureIDs s ! nat index)"
    using "1.prems" by (simp add: array_at_Some)
  show ?case
  proof (cases "index = j")
    case True
    then have "FindTextureSlot_loop s tag' index False textureSlot
        = FindTextureSlot_loop s tag' index True index"
      using lt a "1.prems" by simp
    also have "\<dots> = Some index" by simp
    finally show ?thesis using True by simp
  next
    case False
    then have ne: "TEXTURE_INFO.tag (m_textureIDs s ! nat index) \<noteq> tag'"
      using "1.prems" by simp
    have "FindTextureSlot_loop s tag' (index + 1) False textureSlot = Some j"
      using "1.hyps"(2)[OF _ a ne] lt False "1.prems" by simp
    then show ?thesis using lt a ne by simp
  qed
qed

lemma TEXTURE_INFO_overwrite:
  "(e::TEXTURE_INFO)\<lparr>ID := a, TEXTURE_INFO.tag := b\<rparr> = \<lparr>ID = a, TEXTURE_INFO.tag = b\<rparr>"
  by (cases e) simp

lemma register_texture_registered:
  assumes "wf_textures s" "register_texture textureID t s = Some (r, s')"
  shows "r = True \<and> wf_textures s' \<and>
         registered s' = registered s @ [\<lparr>ID = textureID, TEXTURE_INFO.tag = t\<rparr>] \<and>
         length (m_textureIDs s') = length (m_textureIDs s)"
proof -
  let ?n = "m_loadedTextures s"
  have in_range: "?n < int (length (m_textureIDs s))"
    using assms by (auto simp: register_texture_def gl_def array_at_def Let_def split: if_splits)
  have n0: "0 \<le> ?n" using assms(1) by (simp add: wf_textures_def)
  have s': "s' = (gl [glGenerateMipmap GL_TEXTURE_2D, glBindTexture GL_TEXTURE_2D 0] s)
      \<lparr>m_textureIDs := (m_textureIDs s)[nat ?n := \<lparr>ID = textureID, TEXTURE_INFO.tag = t\<rparr>],
       m_loadedTextures := ?n + 1\<rparr>" and r: "r = True"
    using assms(2) in_range n0
    by (auto simp: register_texture_def gl_def array_at_def Let_def TEXTURE_INFO_overwrite)
  have "take (nat (?n + 1)) ((m_textureIDs s)[nat ?n := \<lparr>ID = textureID, TEXTURE_INFO.tag = t\<rparr>])
      = take (nat ?n) (m_textureIDs s) @ [\<lparr>ID = textureID, TEXTURE_INFO.tag = t\<rparr>]"
    using in_range n0 by (simp add: nat_add_distrib take_Suc_conv_app_nth)
  then show ?thesis
    using r s' in_range n0 by (simp add: registered_def wf_textures_def gl_def)
qed


lemma CreateGLTexture_True:
  assumes "wf_textures s" "CreateGLTexture filename t image' textureID s = Some (True, s')"
  shows "wf_textures s' \<and>
         registered s' = registered s @ [\<lparr>ID = textureID, TEXTURE_INFO.tag = t\<rparr>]"
proof -
  obtain img where img: "image' = Some img"
    using assms(2) by (cases image') (auto simp: CreateGLTexture_def Let_def)
  obtain s2 where reg: "register_texture textureID t s2 = Some (True, s')"
    and wf2: "wf_textures s2" and same: "registered s2 = registered s"
    using assms img
    by (auto simp: CreateGLTexture_def Let_def gl_def print_def wf_textures_def registered_def
        split: if_splits)
  show ?thesis
    using register_texture_registered[OF wf2 reg] same by simp
qed

lemma CreateGLTextures_registered:
  assumes "wf_textures s" "CreateGLTextures reqs s = Some (rs, s')" "\<forall>r \<in> set rs. r"
  shows "wf_textures s' \<and>
         registered s' = registered s @
           map (\<lambda>(filename, t, image', textureID). \<lparr>ID = textureID, TEXTURE_INFO.tag = t\<rparr>) reqs"
  using assms
proof (induction reqs arbitrary: s rs)
  case Nil
  then show ?case by simp
next
  case (Cons q reqs)
  obtain filename t image' textureID where q: "q = (filename, t, image', textureID)"
    by (cases q) auto
  from Cons.prems(2) q obtain r s1 rs1 where
    one: "CreateGLTexture filename t image' textureID s = Some (r, s1)"
    and rest: "CreateGLTextures reqs s1 = Some (rs1, s')" and rs: "rs = r # rs1"
    by (auto split: option.splits)
  have r: "r = True" and all1: "\<forall>r \<in> set rs1. r" using Cons.prems(3) rs by auto
  have step: "wf_textures s1 \<and> registered s1 = registered s @ [\<lparr>ID = textureID, TEXTURE_INFO.tag = t\<rparr>]"
    using CreateGLTexture_True[OF Cons.prems(1)] one r by simp
  have "wf_textures s' \<and> registered s' = registered s1 @
           map (\<lambda>(filename, t, image', textureID). \<lparr>ID = textureID, TEXTURE_INFO.tag = t\<rparr>) reqs"
    using Cons.IH[OF _ rest all1] step by simp
  then show ?case using step q by simp
qed

lemma registered_nth:
  "wf_textures s \<Longrightarrow> 0 \<le> i \<Longrightarrow> i < m_loadedTextures s \<Longrightarrow> m_textureIDs s ! nat i = registered s ! nat i"
  by (simp add: registered_def wf_textures_def)

lemma length_registered:
  "wf_textures s \<Longrightarrow> int (length (registered s)) = m_loadedTextures s"
  by (auto simp: registered_def wf_textures_def min_def)

lemma FindTextureSlot_registered:
  assumes "wf_textures s" "j < length (registered s)"
    "distinct (map TEXTURE_INFO.tag (registered s))"
  shows "FindTextureSlot s (TEXTURE_INFO.tag (registered s ! j)) = Some (int j)"
proof -
  have len: "int (length (registered s)) = m_loadedTextures s"
    using assms(1) by (rule length_registered)
  have jn: "int j < m_loadedTextures s" using assms(2) len by simp
  have other: "\<forall>i. 0 \<le> i \<and> i < int j \<longrightarrow>
      TEXTURE_INFO.tag (m_textureIDs s ! nat i) \<noteq> TEXTURE_INFO.tag (registered s ! j)"
  proof (intro allI impI)
    fix i assume i: "0 \<le> i \<and> i < int j"
    then have "nat i < length (registered s)" "nat i \<noteq> j" using assms(2) by auto
    then have "map TEXTURE_INFO.tag (registered s) ! nat i \<noteq> map TEXTURE_INFO.tag (registered s) ! j"
      using assms(2,3) nth_eq_iff_index_eq[of "map TEXTURE_INFO.tag (registered s)" "nat i" j]
      by simp
    moreover have "m_textureIDs s ! nat i = registered s ! nat i"
      using registered_nth[OF assms(1)] i jn by simp
    ultimately show "TEXTURE_INFO.tag (m_textureIDs s ! nat i) \<noteq> TEXTURE_INFO.tag (registered s ! j)"
      using \<open>nat i < length (registered s)\<close> assms(2) by simp
  qed
  have this_one: "TEXTURE_INFO.tag (m_textureIDs s ! nat (int j)) = TEXTURE_INFO.tag (registered s ! j)"
    using registered_nth[OF assms(1), of "int j"] jn by simp
  show ?thesis
    unfolding FindTextureSlot_def
    using FindTextureSlot_loop_hit[of s 0 "int j", OF _ _ _ jn other this_one] assms(1)
    by (simp add: wf_textures_def)
qed

lemma BindGLTextures_loop_calls:
  assumes "wf_textures s" "0 \<le> i" "i \<le> m_loadedTextures s"
  shows "BindGLTextures_loop i s =
    Some (gl (concat (map (\<lambda>j. [glActiveTexture (GL_TEXTURE0 + int j),
                                  glBindTexture GL_TEXTURE_2D (ID (registered s ! j))])
                        [nat i ..< nat (m_loadedTextures s)])) s)"
  using assms
proof (induction i s rule: BindGLTextures_loop.induct)
  case (1 i s)
  show ?case
  proof (cases "i < m_loadedTextures s")
    case True
    let ?s1 = "gl [glActiveTexture (GL_TEXTURE0 + i), glBindTexture GL_TEXTURE_2D (ID (m_textureIDs s ! nat i))] s"
    have a: "array_at (m_textureIDs s) i = Some (m_textureIDs s ! nat i)"
      using True "1.prems" by (simp add: array_at_Some wf_textures_def)
    have wf1: "wf_textures ?s1" and reg1: "registered ?s1 = registered s"
      and cnt1: "m_loadedTextures ?s1 = m_loadedTextures s"
      using "1.prems" by (simp_all add: wf_textures_def registered_def gl_def)
    have ih: "BindGLTextures_loop (i + 1) ?s1 =
      Some (gl (concat (map (\<lambda>j. [glActiveTexture (GL_TEXTURE0 + int j),
                                  glBindTexture GL_TEXTURE_2D (ID (registered s ! j))])
                        [nat (i + 1) ..< nat (m_loadedTextures s)])) ?s1)"
      using "1.IH"[OF True a wf1] True "1.prems" reg1 cnt1 by simp
    have split: "[nat i ..< nat (m_loadedTextures s)] = nat i # [nat (i + 1) ..< nat (m_loadedTextures s)]"
      using True "1.prems" by (simp add: upt_conv_Cons nat_add_distrib)
    have "BindGLTextures_loop i s = BindGLTextures_loop (i + 1) ?s1"
      using True a by simp
    then show ?thesis
      using ih split registered_nth[OF "1.prems"(1) "1.prems"(2) True] "1.prems"(2)
      by (simp add: gl_def)
  next
    case False
    then have "i = m_loadedTextures s" using "1.prems" by simp
    then show ?thesis by (simp add: gl_def)
  qed
qed

lemma FindTextureSlot_loop_total:
  assumes "wf_textures s" "0 \<le> index"
  shows "\<exists>r'. FindTextureSlot_loop s t index b r = Some r'"
  using assms
proof (induction s t index b r rule: FindTextureSlot_loop.induct)
  case (1 s tag' index bFound textureSlot)
  show ?case
  proof (cases "index < m_loadedTextures s \<and> bFound = False")
    case True
    then have a: "array_at (m_textureIDs s) index = Some (m_textureIDs s ! nat index)"
      using "1.prems" by (simp add: array_at_Some wf_textures_def)
    show ?thesis
    proof (cases "TEXTURE_INFO.tag (m_textureIDs s ! nat index) = tag'")
      case eq: True
      then show ?thesis using True a by simp
    next
      case ne: False
      have "\<exists>r'. FindTextureSlot_loop s tag' (index + 1) bFound textureSlot = Some r'"
        using "1.IH"(2)[OF True a ne] "1.prems" by simp
      then show ?thesis using True a ne by simp
    qed
  next
    case False
    then show ?thesis by auto
  qed
qed

lemma wf_textures_new: "wf_textures (SceneManager_new p)"
  by (simp add: wf_textures_def SceneManager_new_def)

lemma registered_new: "registered (SceneManager_new p) = []"
  by (simp add: registered_def SceneManager_new_def)

lemma two_textures_loaded:
  "\<exists>s. CreateGLTextures two_textures (SceneManager_new p) = Some ([True, True], s) \<and>
       wf_textures s \<and> m_pShaderManager s = p \<and> m_loadedTextures s = 2 \<and>
       registered s = [\<lparr>ID = 1, TEXTURE_INFO.tag = ''grass''\<rparr>,
                       \<lparr>ID = 2, TEXTURE_INFO.tag = ''glass''\<rparr>]"
proof -
  obtain s where s: "CreateGLTextures two_textures (SceneManager_new p) = Some ([True, True], s)"
    and sh: "m_pShaderManager s = p" and n: "m_loadedTextures s = 2"
    by (simp add: two_textures_def SceneManager_new_def CreateGLTexture_def register_texture_def
        gl_def print_def array_at_def Let_def)
  have "wf_textures s \<and> registered s = registered (SceneManager_new p) @
      map (\<lambda>(filename, t, image', textureID). \<lparr>ID = textureID, TEXTURE_INFO.tag = t\<rparr>) two_textures"
    using CreateGLTextures_registered[OF wf_textures_new s] by simp
  then show ?thesis using s sh n by (simp add: registered_new two_textures_def)
qed

text \<open>
  Claim C8. For a tag that none of the registered entries of the texture table carries,
  \<^verbatim>\<open>FindTextureSlot\<close> and \<^verbatim>\<open>FindTextureID\<close> both return \<open>-1\<close>: they return (the
  result is not the undefined behaviour \<open>None\<close>), whatever the number of loaded textures,
  zero included. Both functions only read the scene manager: they have no state to return.
\<close>

theorem find_texture_unregistered:
  assumes "wf_textures s"
    and "\<forall>e \<in> set (registered s). TEXTURE_INFO.tag e \<noteq> t"
  shows "FindTextureSlot s t = Some (- 1) \<and> FindTextureID s t = Some (- 1)"
proof -
  have miss: "\<forall>i. 0 \<le> i \<and> i < m_loadedTextures s \<longrightarrow> TEXTURE_INFO.tag (m_textureIDs s ! nat i) \<noteq> t"
  proof (intro allI impI)
    fix i assume i: "0 \<le> i \<and> i < m_loadedTextures s"
    then have "nat i < length (registered s)"
      using length_registered[OF assms(1)] by linarith
    then have "registered s ! nat i \<in> set (registered s)" by simp
    then show "TEXTURE_INFO.tag (m_textureIDs s ! nat i) \<noteq> t"
      using assms(2) registered_nth[OF assms(1)] i by simp
  qed
  have le: "m_loadedTextures s \<le> int (length (m_textureIDs s))"
    using assms(1) by (simp add: wf_textures_def)
  show ?thesis
    unfolding FindTextureSlot_def FindTextureID_def
    using FindTextureSlot_loop_miss[OF le _ miss] FindTextureID_loop_miss[OF le _ miss]
    by simp
qed

theorem find_texture_unregistered_witness:
  "FindTextureSlot (SceneManager_new None) ''grass'' = Some (- 1) \<and>
   FindTextureID (SceneManager_new None) ''grass'' = Some (- 1) \<and>
   (\<exists>s. CreateGLTextures two_textures (SceneManager_new None) = Some ([True, True], s) \<and>
        FindTextureSlot s ''roofing'' = Some (- 1) \<and> FindTextureID s ''roofing'' = Some (- 1))"
proof -
  obtain s where s: "CreateGLTextures two_textures (SceneManager_new None) = Some ([True, True], s)"
    and wf: "wf_textures s"
    and reg: "registered s = [\<lparr>ID = 1, TEXTURE_INFO.tag = ''grass''\<rparr>,
                       \<lparr>ID = 2, TEXTURE_INFO.tag = ''glass''\<rparr>]"
    using two_textures_loaded[of None] by blast
  have "\<forall>e \<in> set (registered s). TEXTURE_INFO.tag e \<noteq> ''roofing''"
    using reg by simp
  from find_texture_unregistered[OF wf this]
  have a: "FindTextureSlot s ''roofing'' = Some (- 1) \<and> FindTextureID s ''roofing'' = Some (- 1)" .
  have "\<forall>e \<in> set (registered (SceneManager_new None)). TEXTURE_INFO.tag e \<noteq> ''grass''"
    by (simp add: registered_new)
  from find_texture_unregistered[OF wf_textures_new this]
  have b: "FindTextureSlot (SceneManager_new None) ''grass'' = Some (- 1) \<and>
    FindTextureID (SceneManager_new None) ''grass'' = Some (- 1)" .
  show ?thesis using a b s by blast
qed

subsection \<open>Loading a texture\<close>

text \<open>
  Claim C3. For an image that the loader decoded and whose channel count is neither 3 nor 4,
  \<^verbatim>\<open>CreateGLTexture\<close> returns \<^verbatim>\<open>false\<close>; the count of loaded textures, the table and its
  registered entries are as before, and the failure is printed after the line that reports
  the decoded image.
\<close>

theorem unsupported_channels_rejected:
  assumes "colorChannels img \<noteq> 3" "colorChannels img \<noteq> 4"
  shows "\<exists>s'. CreateGLTexture filename t (Some img) textureID s = Some (False, s') \<and>
           m_loadedTextures s' = m_loadedTextures s \<and>
           m_textureIDs s' = m_textureIDs s \<and>
           registered s' = registered s \<and>
           cout s' = cout s @ [SuccessfullyLoadedImage filename (width img) (height img)
                                  (colorChannels img),
                               NotImplementedChannels (colorChannels img)]"
  using assms
  by (simp add: CreateGLTexture_def Let_def gl_def print_def registered_def)

theorem unsupported_channels_rejected_witness:
  "\<exists>s'. CreateGLTexture ''Textures/gray.png'' ''gray''
           (Some \<lparr>width = 64, height = 64, colorChannels = 1\<rparr>) 7 (SceneManager_new None)
         = Some (False, s') \<and>
       m_loadedTextures s' = 0 \<and>
       m_textureIDs s' = m_textureIDs (SceneManager_new None) \<and>
       FindTextureSlot s' ''gray'' = Some (- 1) \<and>
       cout s' = [SuccessfullyLoadedImage ''Textures/gray.png'' 64 64 1, NotImplementedChannels 1]"
proof -
  let ?img = "\<lparr>width = 64, height = 64, colorChannels = 1\<rparr>"
  have c: "colorChannels ?img \<noteq> 3" "colorChannels ?img \<noteq> 4" by simp_all
  obtain s' where s': "CreateGLTexture ''Textures/gray.png'' ''gray'' (Some ?img) 7
        (SceneManager_new None) = Some (False, s')"
    and n: "m_loadedTextures s' = m_loadedTextures (SceneManager_new None)"
    and t: "m_textureIDs s' = m_textureIDs (SceneManager_new None)"
    and r: "registered s' = registered (SceneManager_new None)"
    and l: "cout s' = cout (SceneManager_new None) @
        [SuccessfullyLoadedImage ''Textures/gray.png'' (width ?img) (height ?img) (colorChannels ?img),
         NotImplementedChannels (colorChannels ?img)]"
    using unsupported_channels_rejected[OF c, of "''Textures/gray.png''" "''gray''" 7 "SceneManager_new None"]
    by blast
  have wf: "wf_textures s'" using n t wf_textures_new[of None] by (simp add: wf_textures_def)
  have "FindTextureSlot s' ''gray'' = Some (- 1)"
    using FindTextureSlot_loop_miss[of s' 0 "''gray''" "- 1"] n
    by (simp add: FindTextureSlot_def SceneManager_new_def)
  then show ?thesis using s' n t l by (simp add: SceneManager_new_def)
qed

lemma CreateGLTexture_False:
  assumes "CreateGLTexture filename t image' textureID s = Some (False, s')"
  shows "m_loadedTextures s' = m_loadedTextures s \<and> m_textureIDs s' = m_textureIDs s"
  using assms
  by (auto simp: CreateGLTexture_def register_texture_def Let_def gl_def print_def
      split: option.splits if_splits)

lemma CreateGLTextures_successful:
  assumes "wf_textures s" "CreateGLTextures reqs s = Some (rs, s')"
  shows "wf_textures s' \<and>
         registered s' = registered s @
           map (\<lambda>q. \<lparr>ID = load_ID q, TEXTURE_INFO.tag = load_tag q\<rparr>) (successful_loads reqs rs)"
  using assms
proof (induction reqs arbitrary: s rs)
  case Nil
  then show ?case by (simp add: successful_loads_def)
next
  case (Cons q reqs)
  obtain filename t image' textureID where q: "q = (filename, t, image', textureID)"
    by (cases q) auto
  from Cons.prems(2) q obtain r s1 rs1 where
    one: "CreateGLTexture filename t image' textureID s = Some (r, s1)"
    and rest: "CreateGLTextures reqs s1 = Some (rs1, s')" and rs: "rs = r # rs1"
    by (auto split: option.splits)
  have step: "wf_textures s1 \<and> registered s1 = registered s @
      (if r then [\<lparr>ID = textureID, TEXTURE_INFO.tag = t\<rparr>] else [])"
  proof (cases r)
    case True
    then show ?thesis using CreateGLTexture_True[OF Cons.prems(1)] one by simp
  next
    case False
    then show ?thesis
      using CreateGLTexture_False[of filename t image' textureID s s1] one Cons.prems(1)
      by (simp add: wf_textures_def registered_def)
  qed
  have "wf_textures s' \<and> registered s' = registered s1 @
      map (\<lambda>q. \<lparr>ID = load_ID q, TEXTURE_INFO.tag = load_tag q\<rparr>) (successful_loads reqs rs1)"
    using Cons.IH[OF _ rest] step by simp
  then show ?case
    using step q rs by (simp add: successful_loads_def load_ID_def load_tag_def)
qed

lemma three_loads_done:
  "\<exists>s. CreateGLTextures three_loads (SceneManager_new p) = Some ([True, False, True], s)"
  by (simp add: three_loads_def SceneManager_new_def CreateGLTexture_def register_texture_def
      gl_def print_def array_at_def Let_def)

text \<open>
  Claim C4. Start from a scene manager without loaded textures and run any sequence of
  \<^verbatim>\<open>CreateGLTexture\<close> calls that stays within the table. If the tags of the loads that
  returned \<^verbatim>\<open>true\<close> are distinct, then the count of loaded textures is the number of these
  loads, \<^verbatim>\<open>FindTextureSlot\<close> returns for the tag of the \<open>i\<close>-th of them the slot \<open>i\<close>
  (not negative), and \<^verbatim>\<open>BindGLTextures\<close> returns after exactly one
  \<^verbatim>\<open>glActiveTexture(GL_TEXTURE0 + i)\<close> and one \<^verbatim>\<open>glBindTexture\<close> of the \<open>i\<close>-th handle for
  each of them, in load order.
\<close>

theorem loads_give_slots_in_load_order:
  assumes "m_loadedTextures s0 = 0"
    and "CreateGLTextures reqs s0 = Some (rs, s)"
    and "distinct (map load_tag (successful_loads reqs rs))"
  shows "m_loadedTextures s = int (length (successful_loads reqs rs)) \<and>
    (\<forall>i < length (successful_loads reqs rs).
       FindTextureSlot s (load_tag (successful_loads reqs rs ! i)) = Some (int i)) \<and>
    BindGLTextures s =
      Some (gl (concat (map (\<lambda>i. [glActiveTexture (GL_TEXTURE0 + int i),
                                     glBindTexture GL_TEXTURE_2D
                                       (load_ID (successful_loads reqs rs ! i))])
                         [0 ..< length (successful_loads reqs rs)])) s)"
proof -
  let ?ok = "successful_loads reqs rs"
  let ?entry = "\<lambda>q. \<lparr>ID = load_ID q, TEXTURE_INFO.tag = load_tag q\<rparr>"
  have wf0: "wf_textures s0" and reg0: "registered s0 = []"
    using assms(1) by (simp_all add: wf_textures_def registered_def)
  have wf: "wf_textures s" and reg: "registered s = map ?entry ?ok"
    using CreateGLTextures_successful[OF wf0 assms(2)] reg0 by simp_all
  have tags: "map TEXTURE_INFO.tag (registered s) = map load_tag ?ok"
    using reg by simp
  have len: "length (registered s) = length ?ok" using reg by simp
  have count: "m_loadedTextures s = int (length ?ok)"
    using length_registered[OF wf] len by simp
  have slots: "\<forall>i < length ?ok. FindTextureSlot s (load_tag (?ok ! i)) = Some (int i)"
  proof (intro allI impI)
    fix i assume i: "i < length ?ok"
    have "TEXTURE_INFO.tag (registered s ! i) = load_tag (?ok ! i)"
      using i reg by simp
    moreover have "FindTextureSlot s (TEXTURE_INFO.tag (registered s ! i)) = Some (int i)"
      using FindTextureSlot_registered[OF wf, of i] i len assms(3) tags by simp
    ultimately show "FindTextureSlot s (load_tag (?ok ! i)) = Some (int i)" by simp
  qed
  have same: "map (\<lambda>j. [glActiveTexture (GL_TEXTURE0 + int j),
                          glBindTexture GL_TEXTURE_2D (ID (registered s ! j))]) [0 ..< length ?ok]
      = map (\<lambda>i. [glActiveTexture (GL_TEXTURE0 + int i),
                     glBindTexture GL_TEXTURE_2D (load_ID (?ok ! i))]) [0 ..< length ?ok]"
    using reg by simp
  have "BindGLTextures s =
      Some (gl (concat (map (\<lambda>j. [glActiveTexture (GL_TEXTURE0 + int j),
                                     glBindTexture GL_TEXTURE_2D (ID (registered s ! j))])
                         [0 ..< length ?ok])) s)"
    unfolding BindGLTextures_def
    using BindGLTextures_loop_calls[OF wf, of 0] wf count by (simp add: wf_textures_def)
  then show ?thesis using count slots same by simp
qed

theorem loads_give_slots_in_load_order_witness:
  "\<exists>s s'. CreateGLTextures three_loads (SceneManager_new None) = Some ([True, False, True], s) \<and>
     m_loadedTextures s = 2 \<and>
     FindTextureSlot s ''grass'' = Some 0 \<and> FindTextureSlot s ''glass'' = Some 1 \<and>
     BindGLTextures s = Some s' \<and>
     gl_calls s' = gl_calls s @ [glActiveTexture 33984, glBindTexture GL_TEXTURE_2D 1,
                                 glActiveTexture 33985, glBindTexture GL_TEXTURE_2D 3]"
proof -
  obtain s where s: "CreateGLTextures three_loads (SceneManager_new None) = Some ([True, False, True], s)"
    using three_loads_done[of None] by blast
  have n0: "m_loadedTextures (SceneManager_new None) = 0" by (simp add: SceneManager_new_def)
  have ok: "successful_loads three_loads [True, False, True] =
      [(''Textures/Grass.jpg'', ''grass'', Some \<lparr>width = 512, height = 512, colorChannels = 3\<rparr>, 1),
       (''Textures/glass.jpg'', ''glass'', Some \<lparr>width = 256, height = 128, colorChannels = 4\<rparr>, 3)]"
    by (simp add: successful_loads_def three_loads_def)
  have d: "distinct (map load_tag (successful_loads three_loads [True, False, True]))"
    unfolding ok by (simp add: load_tag_def)
  note t = loads_give_slots_in_load_order[OF n0 s d, unfolded ok]
  have n: "m_loadedTextures s = 2" using t by simp
  have a: "FindTextureSlot s ''grass'' = Some 0" using t by (auto simp: load_tag_def)
  have b: "FindTextureSlot s ''glass'' = Some 1"
  proof -
    have "(1::nat) < 2" by simp
    then show ?thesis using t by (auto simp: load_tag_def)
  qed
  have up: "[0 ..< 2] = [0, Suc 0]" by (simp add: upt_rec)
  have c: "BindGLTextures s = Some (gl [glActiveTexture 33984, glBindTexture GL_TEXTURE_2D 1,
                                 glActiveTexture 33985, glBindTexture GL_TEXTURE_2D 3] s)"
    using t by (simp add: up load_ID_def GL_TEXTURE0_def)
  show ?thesis using s n a b c by (simp add: gl_def)
qed

subsection \<open>Color, texture and material of a draw\<close>

declare FindTextureSlot_loop.simps [simp del] FindTextureID_loop.simps [simp del]
  BindGLTextures_loop.simps [simp del] FindMaterial_loop.simps [simp del]

lemma uniform_setUniform:
  "uniform (setUniform name v sh) n = (if n = name then Some v else uniform sh n)"
  by (simp add: uniform_def setUniform_def)

lemma writes_setUniform: "writes (setUniform name v sh) = writes sh @ [(name, v)]"
  by (simp add: setUniform_def)

lemmas set_value_defs = setIntValue_def setBoolValue_def setFloatValue_def setVec2Value_def
  setVec3Value_def setVec4Value_def setMat4Value_def setSampler2DValue_def

lemma FindTextureSlot_total:
  "wf_textures s \<Longrightarrow> \<exists>slot. FindTextureSlot s t = Some slot"
  unfolding FindTextureSlot_def by (rule FindTextureSlot_loop_total) simp_all

text \<open>
  Claim C10. With a shader manager attached and a texture table in order, \<^verbatim>\<open>SetShaderTexture\<close>
  for a tag that no registered entry carries returns after exactly two writes: \<^verbatim>\<open>bUseTexture\<close>
  set to 1 (true) and then \<^verbatim>\<open>objectTexture\<close> set to the sampler index \<open>-1\<close>. Texturing is
  enabled with the slot that \<^verbatim>\<open>FindTextureSlot\<close> returns for a tag it does not find.
\<close>

theorem unregistered_tag_enables_texturing:
  assumes "wf_textures s" and "m_pShaderManager s = Some sh"
    and "\<forall>e \<in> set (registered s). TEXTURE_INFO.tag e \<noteq> t"
  shows "SetShaderTexture t s =
           Some (s\<lparr>m_pShaderManager :=
                    Some (sh\<lparr>writes := writes sh @ [(''bUseTexture'', IntValue 1),
                                     (''objectTexture'', Sampler2DValue (- 1))]\<rparr>)\<rparr>) \<and>
         uniform (sh\<lparr>writes := writes sh @ [(''bUseTexture'', IntValue 1),
                     (''objectTexture'', Sampler2DValue (- 1))]\<rparr>) ''bUseTexture''
           = Some (IntValue 1) \<and>
         uniform (sh\<lparr>writes := writes sh @ [(''bUseTexture'', IntValue 1),
                     (''objectTexture'', Sampler2DValue (- 1))]\<rparr>) ''objectTexture''
           = Some (Sampler2DValue (- 1))"
proof -
  have miss: "\<forall>i. 0 \<le> i \<and> i < m_loadedTextures s \<longrightarrow> TEXTURE_INFO.tag (m_textureIDs s ! nat i) \<noteq> t"
  proof (intro allI impI)
    fix i assume i: "0 \<le> i \<and> i < m_loadedTextures s"
    then have "nat i < length (registered s)"
      using length_registered[OF assms(1)] by linarith
    then have "registered s ! nat i \<in> set (registered s)" by simp
    then show "TEXTURE_INFO.tag (m_textureIDs s ! nat i) \<noteq> t"
      using assms(3) registered_nth[OF assms(1)] i by simp
  qed
  have le: "m_loadedTextures s \<le> int (length (m_textureIDs s))"
    using assms(1) by (simp add: wf_textures_def)
  have slot: "FindTextureSlot s t = Some (- 1)"
    unfolding FindTextureSlot_def using FindTextureSlot_loop_miss[OF le _ miss] by simp
  show ?thesis
    using assms(2) slot
    by (simp add: SetShaderTexture_def Let_def set_value_defs setUniform_def uniform_def
        g_UseTextureName_def g_TextureValueName_def int_of_bool_def)
qed


theorem unregistered_tag_enables_texturing_witness:
  "\<exists>s. CreateGLTextures two_textures (SceneManager_new (Some \<lparr>writes = []\<rparr>))
          = Some ([True, True], s) \<and>
       SetShaderTexture ''roofing'' s =
         Some (s\<lparr>m_pShaderManager := Some \<lparr>writes = [(''bUseTexture'', IntValue 1),
                                      (''objectTexture'', Sampler2DValue (- 1))]\<rparr>\<rparr>)"
proof -
  let ?sh = "\<lparr>writes = []\<rparr>"
  obtain s where s: "CreateGLTextures two_textures (SceneManager_new (Some ?sh)) = Some ([True, True], s)"
    and wf: "wf_textures s" and sh: "m_pShaderManager s = Some ?sh"
    and reg: "registered s = [\<lparr>ID = 1, TEXTURE_INFO.tag = ''grass''\<rparr>,
                       \<lparr>ID = 2, TEXTURE_INFO.tag = ''glass''\<rparr>]"
    using two_textures_loaded[of "Some ?sh"] by blast
  have "\<forall>e \<in> set (registered s). TEXTURE_INFO.tag e \<noteq> ''roofing''"
    using reg by simp
  from unregistered_tag_enables_texturing[OF wf sh this]
  have "SetShaderTexture ''roofing'' s =
         Some (s\<lparr>m_pShaderManager := Some \<lparr>writes = [(''bUseTexture'', IntValue 1),
                                      (''objectTexture'', Sampler2DValue (- 1))]\<rparr>\<rparr>)"
    by simp
  then show ?thesis using s by blast
qed

lemma SetShaderColor_writes:
  assumes "m_pShaderManager s = Some sh"
  shows "SetShaderColor r g b a s =
    s\<lparr>m_pShaderManager := Some (sh\<lparr>writes := writes sh @
        [(''bUseTexture'', IntValue 0), (''objectColor'', Vec4Value (Vec4 r g b a))]\<rparr>)\<rparr>"
  using assms
  by (simp add: SetShaderColor_def Let_def set_value_defs setUniform_def
      g_UseTextureName_def g_ColorValueName_def int_of_bool_def)

lemma SetShaderTexture_writes:
  assumes "wf_textures s" "m_pShaderManager s = Some sh"
  shows "\<exists>slot. FindTextureSlot s t = Some slot \<and>
    SetShaderTexture t s =
      Some (s\<lparr>m_pShaderManager := Some (sh\<lparr>writes := writes sh @
        [(''bUseTexture'', IntValue 1), (''objectTexture'', Sampler2DValue slot)]\<rparr>)\<rparr>)"
proof -
  obtain slot where slot: "FindTextureSlot s t = Some slot"
    using FindTextureSlot_total[OF assms(1)] by blast
  then show ?thesis
    using assms(2)
    by (simp add: SetShaderTexture_def Let_def set_value_defs setUniform_def
        g_UseTextureName_def g_TextureValueName_def int_of_bool_def)
qed

lemma do_call_bUseTexture:
  assumes "wf_textures s" "m_pShaderManager s = Some sh"
  shows "\<exists>s' sh'. do_call c s = Some s' \<and> wf_textures s' \<and> m_pShaderManager s' = Some sh' \<and>
    uniform sh' ''bUseTexture'' = spec_bUseTexture [c] (uniform sh ''bUseTexture'')"
proof (cases c)
  case (CallSetTransformations sc x y z p)
  then show ?thesis using assms
    by (simp add: SetTransformations_def Let_def set_value_defs uniform_setUniform
        g_ModelName_def wf_textures_def)
next
  case (CallSetShaderColor r g b a)
  then show ?thesis using assms SetShaderColor_writes[OF assms(2), of r g b a]
    by (simp add: uniform_def wf_textures_def)
next
  case (CallSetShaderTexture t)
  obtain slot where "SetShaderTexture t s =
      Some (s\<lparr>m_pShaderManager := Some (sh\<lparr>writes := writes sh @
        [(''bUseTexture'', IntValue 1), (''objectTexture'', Sampler2DValue slot)]\<rparr>)\<rparr>)"
    using SetShaderTexture_writes[OF assms] by blast
  then show ?thesis using CallSetShaderTexture assms
    by (simp add: uniform_def wf_textures_def)
next
  case (CallSetTextureUVScale u v)
  then show ?thesis using assms
    by (simp add: SetTextureUVScale_def set_value_defs uniform_setUniform wf_textures_def)
next
  case (CallSetShaderMaterial t m)
  then show ?thesis using assms
    by (auto simp: SetShaderMaterial_def FindMaterial_def set_value_defs uniform_setUniform
        wf_textures_def split: prod.splits)
qed

lemma spec_bUseTexture_Cons:
  "spec_bUseTexture (c # cs) v = spec_bUseTexture cs (spec_bUseTexture [c] v)"
  by (cases c) simp_all

lemma do_calls_bUseTexture:
  assumes "wf_textures s" "m_pShaderManager s = Some sh"
  shows "\<exists>s' sh'. do_calls cs s = Some s' \<and> m_pShaderManager s' = Some sh' \<and>
    uniform sh' ''bUseTexture'' = spec_bUseTexture cs (uniform sh ''bUseTexture'')"
  using assms
proof (induction cs arbitrary: s sh)
  case Nil
  then show ?case by simp
next
  case (Cons c cs)
  obtain s1 sh1 where one: "do_call c s = Some s1" and wf1: "wf_textures s1"
    and sh1: "m_pShaderManager s1 = Some sh1"
    and u1: "uniform sh1 ''bUseTexture'' = spec_bUseTexture [c] (uniform sh ''bUseTexture'')"
    using do_call_bUseTexture[OF Cons.prems] by blast
  obtain s' sh' where "do_calls cs s1 = Some s'" "m_pShaderManager s' = Some sh'"
    "uniform sh' ''bUseTexture'' = spec_bUseTexture cs (uniform sh1 ''bUseTexture'')"
    using Cons.IH[OF wf1 sh1] by blast
  then show ?case
    using one u1 spec_bUseTexture_Cons[of c cs] by simp
qed

text \<open>
  Claim C6. With a shader manager attached and a texture table in order: \<^verbatim>\<open>SetShaderColor\<close>
  writes \<^verbatim>\<open>bUseTexture\<close> = 0 (false) and then \<^verbatim>\<open>objectColor\<close>; \<^verbatim>\<open>SetShaderTexture\<close> returns
  after writing \<^verbatim>\<open>bUseTexture\<close> = 1 (true) and then the sampler index \<^verbatim>\<open>objectTexture\<close>; and
  after any sequence of the five calls that \<^verbatim>\<open>RenderScene\<close> makes before a draw, the value
  of \<^verbatim>\<open>bUseTexture\<close> is the one of the last \<^verbatim>\<open>SetShaderColor\<close> or \<^verbatim>\<open>SetShaderTexture\<close> among
  them (the value before the sequence when there is none).
\<close>

theorem color_and_texture_exclusive:
  assumes "wf_textures s" and "m_pShaderManager s = Some sh"
  shows "SetShaderColor r g b a s =
      s\<lparr>m_pShaderManager := Some (sh\<lparr>writes := writes sh @
          [(''bUseTexture'', IntValue 0), (''objectColor'', Vec4Value (Vec4 r g b a))]\<rparr>)\<rparr> \<and>
    (\<exists>slot. FindTextureSlot s t = Some slot \<and>
       SetShaderTexture t s =
         Some (s\<lparr>m_pShaderManager := Some (sh\<lparr>writes := writes sh @
           [(''bUseTexture'', IntValue 1), (''objectTexture'', Sampler2DValue slot)]\<rparr>)\<rparr>)) \<and>
    (\<exists>s' sh'. do_calls cs s = Some s' \<and> m_pShaderManager s' = Some sh' \<and>
       uniform sh' ''bUseTexture'' = spec_bUseTexture cs (uniform sh ''bUseTexture''))"
  using SetShaderColor_writes[OF assms(2)] SetShaderTexture_writes[OF assms]
    do_calls_bUseTexture[OF assms]
  by blast


theorem color_and_texture_exclusive_witness:
  "\<exists>s s1 sh1 s2 sh2.
     CreateGLTextures two_textures (SceneManager_new (Some \<lparr>writes = []\<rparr>))
       = Some ([True, True], s) \<and>
     do_calls [CallSetShaderColor 0 (6/10) 0 1, CallSetTextureUVScale 1 1,
               CallSetShaderTexture ''grass''] s = Some s1 \<and>
     m_pShaderManager s1 = Some sh1 \<and> uniform sh1 ''bUseTexture'' = Some (IntValue 1) \<and>
     do_calls [CallSetShaderTexture ''grass'', CallSetShaderColor 0 (6/10) 0 1,
               CallSetTransformations (Vec3 1 1 1) 0 0 0 (Vec3 0 0 0)] s = Some s2 \<and>
     m_pShaderManager s2 = Some sh2 \<and> uniform sh2 ''bUseTexture'' = Some (IntValue 0)"
proof -
  let ?sh = "\<lparr>writes = []\<rparr>"
  obtain s where s: "CreateGLTextures two_textures (SceneManager_new (Some ?sh)) = Some ([True, True], s)"
    and wf: "wf_textures s" and sh: "m_pShaderManager s = Some ?sh"
    using two_textures_loaded[of "Some ?sh"] by blast
  let ?cs1 = "[CallSetShaderColor 0 (6/10) 0 1, CallSetTextureUVScale 1 1,
               CallSetShaderTexture ''grass'']"
  let ?cs2 = "[CallSetShaderTexture ''grass'', CallSetShaderColor 0 (6/10) 0 1,
               CallSetTransformations (Vec3 1 1 1) 0 0 0 (Vec3 0 0 0)]"
  obtain s1 sh1 where a: "do_calls ?cs1 s = Some s1" "m_pShaderManager s1 = Some sh1"
    "uniform sh1 ''bUseTexture'' = spec_bUseTexture ?cs1 (uniform ?sh ''bUseTexture'')"
    using color_and_texture_exclusive[OF wf sh, of _ _ _ _ _ ?cs1] by blast
  obtain s2 sh2 where b: "do_calls ?cs2 s = Some s2" "m_pShaderManager s2 = Some sh2"
    "uniform sh2 ''bUseTexture'' = spec_bUseTexture ?cs2 (uniform ?sh ''bUseTexture'')"
    using color_and_texture_exclusive[OF wf sh, of _ _ _ _ _ ?cs2] by blast
  have "uniform sh1 ''bUseTexture'' = Some (IntValue 1)" using a(3) by simp
  moreover have "uniform sh2 ''bUseTexture'' = Some (IntValue 0)" using b(3) by simp
  ultimately show ?thesis using s a(1,2) b(1,2) by blast
qed

subsection \<open>The material registry\<close>

lemma FindMaterial_loop_miss:
  assumes "0 \<le> index"
    and "\<forall>i. index \<le> i \<and> i < int (length ms) \<longrightarrow> OBJECT_MATERIAL.tag (ms ! nat i) \<noteq> t"
  shows "FindMaterial_loop ms t index False m = (False, m)"
  using assms
proof (induction ms t index "False" m rule: FindMaterial_loop.induct)
  case (1 ms tag' index material)
  show ?case
  proof (cases "index < int (length ms)")
    case True
    then have ne: "OBJECT_MATERIAL.tag (ms ! nat index) \<noteq> tag'" using "1.prems" by simp
    have "FindMaterial_loop ms tag' (index + 1) False material = (False, material)"
      using "1.hyps"(2)[OF _ ne] True "1.prems" by simp
    then show ?thesis using True ne by (simp add: FindMaterial_loop.simps[of ms tag' index])
  next
    case False
    then show ?thesis by (simp add: FindMaterial_loop.simps[of ms tag' index])
  qed
qed

text \<open>
  Claim C1, as the code has it. For a tag that no defined material carries, \<^verbatim>\<open>FindMaterial\<close>
  leaves the output parameter as it was, and returns \<^verbatim>\<open>false\<close> only when no material is
  defined: with a material defined under another tag it returns \<^verbatim>\<open>true\<close>, since the
  function ends with \<^verbatim>\<open>return(true)\<close> and never returns \<open>bFound\<close>.
\<close>

theorem FindMaterial_unregistered_tag:
  assumes "\<forall>e \<in> set (m_objectMaterials s). OBJECT_MATERIAL.tag e \<noteq> t"
  shows "FindMaterial t m s = (m_objectMaterials s \<noteq> [], m)"
proof -
  have "\<forall>i. 0 \<le> i \<and> i < int (length (m_objectMaterials s)) \<longrightarrow>
      OBJECT_MATERIAL.tag (m_objectMaterials s ! nat i) \<noteq> t"
    using assms by auto
  then have "FindMaterial_loop (m_objectMaterials s) t 0 False m = (False, m)"
    using FindMaterial_loop_miss[of 0 "m_objectMaterials s" t m] by simp
  then show ?thesis by (simp add: FindMaterial_def)
qed

theorem FindMaterial_unregistered_tag_witness:
  "FindMaterial ''missing'' example_material (SceneManager_new None) = (False, example_material) \<and>
   FindMaterial ''missing'' example_material (DefineObjectMaterials (SceneManager_new None))
     = (True, example_material)"
proof -
  have a: "\<forall>e \<in> set (m_objectMaterials (SceneManager_new None)). OBJECT_MATERIAL.tag e \<noteq> ''missing''"
    by (simp add: SceneManager_new_def)
  have b: "\<forall>e \<in> set (m_objectMaterials (DefineObjectMaterials (SceneManager_new None))).
      OBJECT_MATERIAL.tag e \<noteq> ''missing''"
    by (simp add: SceneManager_new_def DefineObjectMaterials_def)
  show ?thesis
    using FindMaterial_unregistered_tag[OF a, of example_material]
      FindMaterial_unregistered_tag[OF b, of example_material]
    by (simp add: SceneManager_new_def DefineObjectMaterials_def)
qed

subsection \<open>The model matrix\<close>






lemma vec4_add_assoc: "vec4_add (vec4_add a b) c = vec4_add a (vec4_add b c)"
  by (cases a; cases b; cases c) simp

lemma vec4_scale_add: "vec4_scale (vec4_add a b) k = vec4_add (vec4_scale a k) (vec4_scale b k)"
  by (cases a; cases b) (simp add: algebra_simps)

lemma vec4_scale_scale: "vec4_scale (vec4_scale a k) l = vec4_scale a (k * l)"
  by (cases a) (simp add: algebra_simps)








subsection \<open>The projection of a frame\<close>

lemma camera_key_Some:
  assumes "g_pCamera s = Some c"
  shows "\<exists>c'. camera_key pk down d s = Some (s\<lparr>g_pCamera := Some c'\<rparr>)"
proof (cases down)
  case True
  then have "camera_key pk down d s = Some (s\<lparr>g_pCamera := Some (pk d (gDeltaTime s) c)\<rparr>)"
    using assms by (simp add: camera_key_def)
  then show ?thesis by blast
next
  case False
  have "s\<lparr>g_pCamera := Some c\<rparr> = s" using assms by simp
  then show ?thesis using False by (metis camera_key_def)
qed

lemma ProcessKeyboardEvents_Some:
  assumes "m_pWindow s = Some w" "g_pCamera s = Some c"
  shows "\<exists>s' c'. ProcessKeyboardEvents pk pressed s = Some s' \<and> g_pCamera s' = Some c' \<and>
    m_pShaderManager_view s' = m_pShaderManager_view s \<and>
    bOrthographicProjection s' =
      (if pressed GLFW_KEY_O then True
       else if pressed GLFW_KEY_P then False else bOrthographicProjection s)"
proof -
  define s0 where "s0 = (if pressed GLFW_KEY_ESCAPE
                      then s\<lparr>m_pWindow := Some (w\<lparr>shouldClose := True\<rparr>)\<rparr> else s)"
  have c0: "g_pCamera s0 = Some c" using assms(2) by (simp add: s0_def)
  obtain c1 where k1: "camera_key pk (pressed GLFW_KEY_W) FORWARD s0 = Some (s0\<lparr>g_pCamera := Some c1\<rparr>)"
    using camera_key_Some[OF c0] by blast
  define s1 where "s1 = s0\<lparr>g_pCamera := Some c1\<rparr>"
  have c1: "g_pCamera s1 = Some c1" by (simp add: s1_def)
  obtain c2 where k2: "camera_key pk (pressed GLFW_KEY_S) BACKWARD s1 = Some (s1\<lparr>g_pCamera := Some c2\<rparr>)"
    using camera_key_Some[OF c1] by blast
  define s2 where "s2 = s1\<lparr>g_pCamera := Some c2\<rparr>"
  have c2: "g_pCamera s2 = Some c2" by (simp add: s2_def)
  obtain c3 where k3: "camera_key pk (pressed GLFW_KEY_A) LEFT s2 = Some (s2\<lparr>g_pCamera := Some c3\<rparr>)"
    using camera_key_Some[OF c2] by blast
  define s3 where "s3 = s2\<lparr>g_pCamera := Some c3\<rparr>"
  have c3: "g_pCamera s3 = Some c3" by (simp add: s3_def)
  obtain c4 where k4: "camera_key pk (pressed GLFW_KEY_D) RIGHT s3 = Some (s3\<lparr>g_pCamera := Some c4\<rparr>)"
    using camera_key_Some[OF c3] by blast
  define s4 where "s4 = s3\<lparr>g_pCamera := Some c4\<rparr>"
  have c4: "g_pCamera s4 = Some c4" by (simp add: s4_def)
  obtain c5 where k5: "camera_key pk (pressed GLFW_KEY_Q) UP s4 = Some (s4\<lparr>g_pCamera := Some c5\<rparr>)"
    using camera_key_Some[OF c4] by blast
  define s5 where "s5 = s4\<lparr>g_pCamera := Some c5\<rparr>"
  have c5: "g_pCamera s5 = Some c5" by (simp add: s5_def)
  obtain c6 where k6: "camera_key pk (pressed GLFW_KEY_E) DOWN s5 = Some (s5\<lparr>g_pCamera := Some c6\<rparr>)"
    using camera_key_Some[OF c5] by blast
  define s6 where "s6 = s5\<lparr>g_pCamera := Some c6\<rparr>"
  have frame: "g_pCamera s6 = Some c6" "m_pShaderManager_view s6 = m_pShaderManager_view s"
    "bOrthographicProjection s6 = bOrthographicProjection s"
    by (simp_all add: s6_def s5_def s4_def s3_def s2_def s1_def s0_def)
  have "ProcessKeyboardEvents pk pressed s =
      Some (if pressed GLFW_KEY_O
            then (if pressed GLFW_KEY_P then s6\<lparr>bOrthographicProjection := False\<rparr> else s6)
                   \<lparr>bOrthographicProjection := True\<rparr>
            else (if pressed GLFW_KEY_P then s6\<lparr>bOrthographicProjection := False\<rparr> else s6))"
    using assms(1) k1 k2 k3 k4 k5 k6
    by (simp add: ProcessKeyboardEvents_def Let_def s0_def[symmetric] s1_def[symmetric]
        s2_def[symmetric] s3_def[symmetric] s4_def[symmetric] s5_def[symmetric] s6_def[symmetric])
  then show ?thesis using frame by auto
qed


text \<open>
  Claim C2, amended. With a window, a camera and a shader manager present,
  \<^verbatim>\<open>PrepareSceneView\<close> returns; the mode after it is orthographic when the key O is down,
  perspective when only P is down, and the mode before otherwise. In orthographic mode the
  projection written is \<^verbatim>\<open>glm::ortho\<close> with left and right \<open>-10\<close> and \<open>10\<close>, bottom and top
  \<open>-8\<close> and \<open>8\<close>, that is 10 times the window's height over its width (800/1000, the inverse
  of the aspect ratio 1.25), near 0.1 and far 100, and the camera's front vector is
  overwritten with (0, -1, -1). In perspective mode the projection written is
  \<^verbatim>\<open>glm::perspective\<close> with the camera's zoom (degrees, converted to radians) as vertical
  field of view, the aspect ratio 1.25, near 0.1 and far 100.
\<close>

theorem projection_by_mode:
  assumes "m_pWindow s = Some w" and "g_pCamera s = Some c"
    and "m_pShaderManager_view s = Some sh"
  shows "\<exists>s' c' sh'.
    PrepareSceneView pk gvm pressed currentFrame s = Some s' \<and>
    g_pCamera s' = Some c' \<and> m_pShaderManager_view s' = Some sh' \<and>
    bOrthographicProjection s' =
      (if pressed GLFW_KEY_O then True
       else if pressed GLFW_KEY_P then False else bOrthographicProjection s) \<and>
    (if bOrthographicProjection s'
     then uniform sh' ''projection'' = Some (Mat4Value (glm_ortho (- 10) 10 (- 8) 8 (1/10) 100)) \<and>
          Front c' = Vec3 0 (- 1) (- 1)
     else uniform sh' ''projection'' =
            Some (Mat4Value (glm_perspective (glm_radians (Zoom c')) (5/4) (1/10) 100)))"
proof -
  let ?s2 = "s\<lparr>gDeltaTime := currentFrame - gLastFrame s, gLastFrame := currentFrame\<rparr>"
  have w2: "m_pWindow ?s2 = Some w" and c2: "g_pCamera ?s2 = Some c" using assms by simp_all
  obtain s3 c3 where k: "ProcessKeyboardEvents pk pressed ?s2 = Some s3"
    and c3: "g_pCamera s3 = Some c3"
    and sh3': "m_pShaderManager_view s3 = m_pShaderManager_view ?s2"
    and o3': "bOrthographicProjection s3 =
      (if pressed GLFW_KEY_O then True
       else if pressed GLFW_KEY_P then False else bOrthographicProjection ?s2)"
    using ProcessKeyboardEvents_Some[OF w2 c2, of pk pressed] by blast
  have sh3: "m_pShaderManager_view s3 = Some sh" using sh3' assms(3) by simp
  have o3: "bOrthographicProjection s3 =
      (if pressed GLFW_KEY_O then True
       else if pressed GLFW_KEY_P then False else bOrthographicProjection s)"
    using o3' by simp
  show ?thesis
  proof (cases "bOrthographicProjection s3")
    case True
    let ?c' = "c3\<lparr>Front := Vec3 0 (- 1) (- 1)\<rparr>"
    let ?sh' = "setVec3Value ''viewPosition'' (Position ?c')
        (setMat4Value g_ProjectionName (glm_ortho (- 10) 10 (- 8) 8 (1/10) 100)
          (setMat4Value g_ViewName (gvm c3) sh))"
    let ?s' = "s3\<lparr>g_pCamera := Some ?c', m_pShaderManager_view := Some ?sh'\<rparr>"
    have f1: "PrepareSceneView pk gvm pressed currentFrame s = Some ?s'"
      using k c3 sh3 True
      by (simp add: PrepareSceneView_def Let_def WINDOW_WIDTH_def WINDOW_HEIGHT_def)
    have f2: "g_pCamera ?s' = Some ?c'" and f3: "m_pShaderManager_view ?s' = Some ?sh'"
      by simp_all
    have f4: "bOrthographicProjection ?s' =
      (if pressed GLFW_KEY_O then True
       else if pressed GLFW_KEY_P then False else bOrthographicProjection s)"
      using o3 by simp
    have u: "uniform ?sh' ''projection'' =
        Some (Mat4Value (glm_ortho (- 10) 10 (- 8) 8 (1/10) 100))"
      by (simp add: set_value_defs uniform_setUniform g_ProjectionName_def)
    have f5: "if bOrthographicProjection ?s'
     then uniform ?sh' ''projection'' = Some (Mat4Value (glm_ortho (- 10) 10 (- 8) 8 (1/10) 100)) \<and>
          Front ?c' = Vec3 0 (- 1) (- 1)
     else uniform ?sh' ''projection'' =
            Some (Mat4Value (glm_perspective (glm_radians (Zoom ?c')) (5/4) (1/10) 100))"
      using True u by simp
    show ?thesis using f1 f2 f3 f4 f5 by blast
  next
    case False
    let ?sh' = "setVec3Value ''viewPosition'' (Position c3)
        (setMat4Value g_ProjectionName (glm_perspective (glm_radians (Zoom c3)) (5/4) (1/10) 100)
          (setMat4Value g_ViewName (gvm c3) sh))"
    let ?s' = "s3\<lparr>g_pCamera := Some c3, m_pShaderManager_view := Some ?sh'\<rparr>"
    have f1: "PrepareSceneView pk gvm pressed currentFrame s = Some ?s'"
      using k c3 sh3 False
      by (simp add: PrepareSceneView_def Let_def WINDOW_WIDTH_def WINDOW_HEIGHT_def)
    have f2: "g_pCamera ?s' = Some c3" and f3: "m_pShaderManager_view ?s' = Some ?sh'"
      by simp_all
    have f4: "bOrthographicProjection ?s' =
      (if pressed GLFW_KEY_O then True
       else if pressed GLFW_KEY_P then False else bOrthographicProjection s)"
      using o3 by simp
    have u: "uniform ?sh' ''projection'' =
        Some (Mat4Value (glm_perspective (glm_radians (Zoom c3)) (5/4) (1/10) 100))"
      by (simp add: set_value_defs uniform_setUniform g_ProjectionName_def)
    have f5: "if bOrthographicProjection ?s'
     then uniform ?sh' ''projection'' = Some (Mat4Value (glm_ortho (- 10) 10 (- 8) 8 (1/10) 100)) \<and>
          Front c3 = Vec3 0 (- 1) (- 1)
     else uniform ?sh' ''projection'' =
            Some (Mat4Value (glm_perspective (glm_radians (Zoom c3)) (5/4) (1/10) 100))"
      using False u by simp
    show ?thesis using f1 f2 f3 f4 f5 by blast
  qed
qed

theorem projection_by_mode_witness:
  "\<exists>s1 sh1 c1 s2 sh2.
     PrepareSceneView example_ProcessKeyboard example_GetViewMatrix only_key_O 0 example_view
       = Some s1 \<and> bOrthographicProjection s1 \<and>
     m_pShaderManager_view s1 = Some sh1 \<and> g_pCamera s1 = Some c1 \<and>
     uniform sh1 ''projection'' = Some (Mat4Value (glm_ortho (- 10) 10 (- 8) 8 (1/10) 100)) \<and>
     Front c1 = Vec3 0 (- 1) (- 1) \<and>
     PrepareSceneView example_ProcessKeyboard example_GetViewMatrix no_key 0 example_view
       = Some s2 \<and> bOrthographicProjection s2 = False \<and>
     m_pShaderManager_view s2 = Some sh2 \<and>
     uniform sh2 ''projection'' =
       Some (Mat4Value (glm_perspective (glm_radians 80) (5/4) (1/10) 100))"
proof -
  let ?c = "\<lparr>Position = Vec3 0 5 12, Front = Vec3 0 (- (1/2)) (- 2), Up = Vec3 0 1 0,
                Zoom = 80, MovementSpeed = Finite 20\<rparr>"
  have w: "m_pWindow example_view = Some \<lparr>shouldClose = False\<rparr>"
    and c: "g_pCamera example_view = Some ?c"
    and sh: "m_pShaderManager_view example_view = Some \<lparr>writes = []\<rparr>"
    and o: "bOrthographicProjection example_view = False"
    by (simp_all add: example_view_def CreateDisplayWindow_def ViewManager_new_def)
  obtain s1 c1 sh1 where a:
    "PrepareSceneView example_ProcessKeyboard example_GetViewMatrix only_key_O 0 example_view = Some s1"
    "g_pCamera s1 = Some c1" "m_pShaderManager_view s1 = Some sh1"
    "bOrthographicProjection s1"
    "uniform sh1 ''projection'' = Some (Mat4Value (glm_ortho (- 10) 10 (- 8) 8 (1/10) 100))"
    "Front c1 = Vec3 0 (- 1) (- 1)"
    using projection_by_mode[OF w c sh, of example_ProcessKeyboard example_GetViewMatrix only_key_O 0]
    by (auto simp: only_key_O_def split: if_splits)
  obtain s2 c2 sh2 where b:
    "PrepareSceneView example_ProcessKeyboard example_GetViewMatrix no_key 0 example_view = Some s2"
    "g_pCamera s2 = Some c2" "m_pShaderManager_view s2 = Some sh2"
    "bOrthographicProjection s2 = False"
    "uniform sh2 ''projection'' =
       Some (Mat4Value (glm_perspective (glm_radians (Zoom c2)) (5/4) (1/10) 100))"
    using projection_by_mode[OF w c sh, of example_ProcessKeyboard example_GetViewMatrix no_key 0] o
    by (auto simp: no_key_def split: if_splits)
  have e: "PrepareSceneView example_ProcessKeyboard example_GetViewMatrix no_key 0 example_view =
      Some (example_view\<lparr>g_pCamera := Some ?c, m_pShaderManager_view := Some \<lparr>writes =
        [(''view'', Mat4Value mat4_identity),
         (''projection'', Mat4Value (glm_perspective (glm_radians 80) (5/4) (1/10) 100)),
         (''viewPosition'', Vec3Value (Vec3 0 5 12))]\<rparr>\<rparr>)"
    by (simp add: PrepareSceneView_def ProcessKeyboardEvents_def camera_key_def example_view_def
        CreateDisplayWindow_def ViewManager_new_def no_key_def example_ProcessKeyboard_def
        example_GetViewMatrix_def Let_def WINDOW_WIDTH_def WINDOW_HEIGHT_def set_value_defs
        setUniform_def g_ViewName_def g_ProjectionName_def)
  have "g_pCamera s2 = Some ?c" using e b(1) by auto
  then have "c2 = ?c" using b(2) by simp
  then have "Zoom c2 = 80" by simp
  then show ?thesis using a b by auto
qed

text \<open>The claim C2 as stated has top and bottom at 10 times the aspect ratio 1.25; the
  projection written in orthographic mode is not that matrix.\<close>

lemma example_view_frame:
  "\<exists>s'. PrepareSceneView example_ProcessKeyboard example_GetViewMatrix only_key_O 0 example_view
      = Some s' \<and> bOrthographicProjection s' \<and>
    g_pCamera s' = Some \<lparr>Position = Vec3 0 5 12, Front = Vec3 0 (- 1) (- 1), Up = Vec3 0 1 0,
                          Zoom = 80, MovementSpeed = Finite 20\<rparr> \<and>
    m_pShaderManager_view s' = Some \<lparr>writes =
      [(''view'', Mat4Value mat4_identity),
       (''projection'', Mat4Value (glm_ortho (- 10) 10 (- 8) 8 (1/10) 100)),
       (''viewPosition'', Vec3Value (Vec3 0 5 12))]\<rparr>"
  by (simp add: PrepareSceneView_def ProcessKeyboardEvents_def camera_key_def example_view_def
      CreateDisplayWindow_def ViewManager_new_def only_key_O_def example_ProcessKeyboard_def
      example_GetViewMatrix_def Let_def WINDOW_WIDTH_def WINDOW_HEIGHT_def set_value_defs
      setUniform_def g_ViewName_def g_ProjectionName_def)

theorem orthographic_bounds_counterexample:
  "\<exists>s' sh'. PrepareSceneView example_ProcessKeyboard example_GetViewMatrix only_key_O 0 example_view
      = Some s' \<and> bOrthographicProjection s' \<and> m_pShaderManager_view s' = Some sh' \<and>
    uniform sh' ''projection'' \<noteq>
      Some (Mat4Value (glm_ortho (- 10) 10
              (- 10 * (real_of_int WINDOW_WIDTH / real_of_int WINDOW_HEIGHT))
              (10 * (real_of_int WINDOW_WIDTH / real_of_int WINDOW_HEIGHT)) (1/10) 100))"
proof -
  obtain s' where s': "PrepareSceneView example_ProcessKeyboard example_GetViewMatrix only_key_O 0
      example_view = Some s'" and o: "bOrthographicProjection s'"
    and sh: "m_pShaderManager_view s' = Some \<lparr>writes =
      [(''view'', Mat4Value mat4_identity),
       (''projection'', Mat4Value (glm_ortho (- 10) 10 (- 8) 8 (1/10) 100)),
       (''viewPosition'', Vec3Value (Vec3 0 5 12))]\<rparr>"
    using example_view_frame by blast
  have "uniform \<lparr>writes =
      [(''view'', Mat4Value mat4_identity),
       (''projection'', Mat4Value (glm_ortho (- 10) 10 (- 8) 8 (1/10) 100)),
       (''viewPosition'', Vec3Value (Vec3 0 5 12))]\<rparr> ''projection'' \<noteq>
      Some (Mat4Value (glm_ortho (- 10) 10
              (- 10 * (real_of_int WINDOW_WIDTH / real_of_int WINDOW_HEIGHT))
              (10 * (real_of_int WINDOW_WIDTH / real_of_int WINDOW_HEIGHT)) (1/10) 100))"
    by (simp add: uniform_def glm_ortho_def WINDOW_WIDTH_def WINDOW_HEIGHT_def)
  then show ?thesis using s' o sh by blast
qed

subsection \<open>Rounding to single and double precision\<close>





















subsection \<open>Scroll events\<close>


























subsection \<open>Pointer events\<close>















end
